theory Spec2Isabelle
  imports Complex_Main
begin

section \<open>JavaScript numbers\<close>

text \<open>
  Prices, ratios, thresholds and flags are JavaScript numbers, that is IEEE 754
  double-precision values: NaN, the two infinities and the finite numbers, a finite
  number carried as the real number it stands for (there is one zero).  Addition,
  subtraction, multiplication and division give the exact result rounded to the
  nearest double, ties to the even mantissa, overflowing to an infinity
  (\<open>round_double\<close>); comparisons, \<open>Math.max\<close>, \<open>Math.min\<close>, \<open>isNaN\<close>, truthiness
  and division by zero behave as in the language.
\<close>

datatype jsnum = NaN | NegInf | Fin real | PosInf

text \<open>\<open>floor_log2 n\<close> is the position of the leading bit of \<open>n\<close>.\<close>

fun floor_log2 :: "nat \<Rightarrow> nat" where
  "floor_log2 n = (if n < 2 then 0 else Suc (floor_log2 (n div 2)))"

declare floor_log2.simps [simp del]

definition pow2 :: "int \<Rightarrow> real" where
  "pow2 k = (if 0 \<le> k then 2 ^ nat k else 1 / 2 ^ nat (- k))"

text \<open>The binary exponent of a positive number \<open>a\<close>: \<open>2^e \<le> a < 2^(e+1)\<close>.\<close>

definition binade :: "real \<Rightarrow> int" where
  "binade a = (if 1 \<le> a then int (floor_log2 (nat \<lfloor>a\<rfloor>))
               else - int (floor_log2 (nat (\<lceil>1 / a\<rceil> - 1))) - 1)"

definition round_half_even :: "real \<Rightarrow> int" where
  "round_half_even t =
     (let f = \<lfloor>t\<rfloor>; d = t - of_int f
      in if d < 1 / 2 then f else if d > 1 / 2 then f + 1 else if even f then f else f + 1)"

text \<open>
  The double nearest to a real number.  A double has a mantissa of 53 bits; the
  exponent of a normal number is at least \<open>-1022\<close>, below that the spacing stays
  \<open>2^-1074\<close>.  A result of magnitude \<open>2^1024\<close> or more is an infinity.
\<close>

definition round_double :: "real \<Rightarrow> jsnum" where
  "round_double x =
     (if x = 0 then Fin 0
      else let a = \<bar>x\<bar>;
               e = max (binade a) (- 1022);
               q = pow2 (e - 52);
               m = of_int (round_half_even (a / q)) * q
           in if pow2 1024 \<le> m then (if x < 0 then NegInf else PosInf)
              else Fin (if x < 0 then - m else m))"

fun js_isNaN :: "jsnum \<Rightarrow> bool" where
  "js_isNaN NaN = True"
| "js_isNaN _ = False"

text \<open>\<open>a <= b\<close>: false as soon as one side is NaN.\<close>

fun js_le :: "jsnum \<Rightarrow> jsnum \<Rightarrow> bool" where
  "js_le NaN _ = False"
| "js_le _ NaN = False"
| "js_le NegInf _ = True"
| "js_le _ PosInf = True"
| "js_le (Fin x) (Fin y) = (x \<le> y)"
| "js_le _ _ = False"

definition js_ge :: "jsnum \<Rightarrow> jsnum \<Rightarrow> bool" where
  "js_ge x y = js_le y x"

text \<open>\<open>a < b\<close> and \<open>a > b\<close>.\<close>

definition js_lt :: "jsnum \<Rightarrow> jsnum \<Rightarrow> bool" where
  "js_lt x y = (js_le x y \<and> x \<noteq> y)"

definition js_gt :: "jsnum \<Rightarrow> jsnum \<Rightarrow> bool" where
  "js_gt x y = js_lt y x"

text \<open>\<open>a === b\<close> on numbers: NaN equals nothing, not even itself.\<close>

definition js_eq :: "jsnum \<Rightarrow> jsnum \<Rightarrow> bool" where
  "js_eq x y = (x = y \<and> \<not> js_isNaN x)"

text \<open>Truthiness of a number: \<open>0\<close> and NaN are falsy.\<close>

definition js_truthy :: "jsnum \<Rightarrow> bool" where
  "js_truthy x = (x \<noteq> NaN \<and> x \<noteq> Fin 0)"

text \<open>\<open>Math.max\<close> and \<open>Math.min\<close> of two numbers: NaN if either is.\<close>

definition js_max :: "jsnum \<Rightarrow> jsnum \<Rightarrow> jsnum" where
  "js_max x y = (if js_isNaN x \<or> js_isNaN y then NaN else if js_le x y then y else x)"

definition js_min :: "jsnum \<Rightarrow> jsnum \<Rightarrow> jsnum" where
  "js_min x y = (if js_isNaN x \<or> js_isNaN y then NaN else if js_le x y then x else y)"

fun js_neg :: "jsnum \<Rightarrow> jsnum" where
  "js_neg NaN = NaN"
| "js_neg NegInf = PosInf"
| "js_neg PosInf = NegInf"
| "js_neg (Fin x) = Fin (- x)"

fun js_add :: "jsnum \<Rightarrow> jsnum \<Rightarrow> jsnum" where
  "js_add NaN _ = NaN"
| "js_add _ NaN = NaN"
| "js_add (Fin x) (Fin y) = round_double (x + y)"
| "js_add PosInf NegInf = NaN"
| "js_add NegInf PosInf = NaN"
| "js_add PosInf _ = PosInf"
| "js_add NegInf _ = NegInf"
| "js_add _ y = y"

definition js_sub :: "jsnum \<Rightarrow> jsnum \<Rightarrow> jsnum" where
  "js_sub x y = js_add x (js_neg y)"

text \<open>The sign of a number that is not NaN: \<open>-1\<close>, \<open>0\<close> or \<open>1\<close>.\<close>

fun js_sign :: "jsnum \<Rightarrow> int" where
  "js_sign NaN = 0"
| "js_sign NegInf = - 1"
| "js_sign PosInf = 1"
| "js_sign (Fin x) = (if x < 0 then - 1 else if x = 0 then 0 else 1)"

definition js_inf :: "int \<Rightarrow> jsnum" where
  "js_inf sg = (if sg < 0 then NegInf else if sg = 0 then NaN else PosInf)"

fun js_mul :: "jsnum \<Rightarrow> jsnum \<Rightarrow> jsnum" where
  "js_mul NaN _ = NaN"
| "js_mul _ NaN = NaN"
| "js_mul (Fin x) (Fin y) = round_double (x * y)"
| "js_mul x y = js_inf (js_sign x * js_sign y)"

text \<open>
  Division: a finite number over zero is an infinity of the dividend's sign, zero
  over zero and infinity over infinity are NaN, a finite number over an infinity is
  zero.
\<close>

fun js_div :: "jsnum \<Rightarrow> jsnum \<Rightarrow> jsnum" where
  "js_div NaN _ = NaN"
| "js_div _ NaN = NaN"
| "js_div (Fin x) (Fin y) = (if y = 0 then js_inf (js_sign (Fin x)) else round_double (x / y))"
| "js_div (Fin x) _ = Fin 0"
| "js_div x (Fin y) = js_inf (js_sign x * (if y < 0 then - 1 else 1))"
| "js_div _ _ = NaN"

section \<open>Data model\<close>

datatype OrderType = MARKET_BUY | STOP_LOSS | TAKE_PROFIT | LFG_SELL

datatype OrderStatus = PENDING | TRIGGERED | EXECUTING | COMPLETED | FAILED | CANCELLED

datatype TriggerType = PRICE | GAIN_PERCENT | LFG_FLAG | IMMEDIATE

datatype TriggerCondition = GTE | LTE | EQ

datatype PositionStatus = ACTIVE

text \<open>
  An order identity is the template string
  \<open>positionId_type_timestamp_counter_random\<close> of \<open>generateOrderId\<close>, kept as its
  five parts.
\<close>

type_synonym OrderId = "string \<times> OrderType \<times> nat \<times> nat \<times> nat"

text \<open>
  Optional properties (\<open>triggeredAt?\<close>, \<open>signature?\<close>, \<open>s?\<close>) are options, \<open>None\<close>
  standing for \<open>undefined\<close> and for SQL \<open>NULL\<close>.  Field names carry a prefix per
  interface, since the interfaces share names.
\<close>

record Order =
  o_id :: OrderId
  o_positionId :: string
  o_type :: OrderType
  o_status :: OrderStatus
  o_sellRatio :: jsnum
  o_triggerType :: TriggerType
  o_triggerCondition :: TriggerCondition
  o_triggerValue :: jsnum
  o_triggerDescription :: string
  o_createdAt :: nat
  o_triggeredAt :: "nat option"
  o_executedAt :: "nat option"
  o_signature :: "string option"
  o_error :: "string option"
  o_retryCount :: nat
  o_description :: string

record Position =
  p_id :: string
  p_address :: string
  p_symbol :: "string option"
  p_entryPrice :: jsnum
  p_currentPrice :: jsnum
  p_highestPrice :: jsnum
  p_lowestPrice :: jsnum
  p_solInvested :: jsnum
  p_entryTime :: nat
  p_lastUpdated :: nat
  p_status :: PositionStatus
  p_lfg :: jsnum

record OrderCreationParams =
  c_positionId :: string
  c_type :: OrderType
  c_sellRatio :: jsnum
  c_triggerType :: TriggerType
  c_triggerCondition :: TriggerCondition
  c_triggerValue :: jsnum
  c_triggerDescription :: string
  c_description :: string

record OrderExecutionResult =
  success :: bool
  signature :: "string option"
  error :: "string option"

record TradeHistoryRecord =
  t_positionId :: string
  t_orderId :: OrderId
  t_symbol :: "string option"
  t_address :: string
  t_type :: OrderType
  t_sellRatio :: jsnum
  t_entryPrice :: jsnum
  t_exitPrice :: jsnum
  t_gainPercent :: jsnum
  t_executedAt :: nat
  t_signature :: string
  t_reason :: "string option"

text \<open>
  The fields of a tick that the engine and the admission filter read.  An optional
  number that is absent reads as \<open>undefined\<close>, which every comparison and every
  truthiness test here treats as NaN, so it is written NaN.
\<close>

record TokenData =
  tk_a :: string
  tk_s :: "string option"
  tk_mc :: jsnum
  tk_lc_flg :: jsnum
  tk_hd :: jsnum
  tk_pg :: jsnum
  tk_etpr :: jsnum
  tk_rat :: jsnum
  tk_v1h :: jsnum
  tk_t70_shr :: jsnum
  tk_kol :: jsnum
  tk_t10 :: jsnum
  tk_ct :: jsnum
  tk_d_ts :: string
  tk_s_brs :: string
  tk_mt :: string
  tk_m_t :: "string option"
  tk_m_w :: "string option"
  tk_m_x :: "string option"

record SwapParams =
  inputMint :: string
  outputMint :: string
  amount :: jsnum
  slippageBps :: nat

text \<open>
  \<open>CONFIG\<close>.  \<open>MAX_POSITIONS\<close> is the result of \<open>parseInt\<close>, an integer; the
  strategy values come from \<open>parseFloat\<close>.
\<close>

record TradingConfig =
  TRADE_ENABLED :: bool
  SOL_INVESTMENT_AMOUNT :: jsnum
  MAX_POSITIONS :: int
  INITIAL_STOP_LOSS :: jsnum
  DOUBLE_PROFIT_THRESHOLD :: jsnum
  DOUBLE_SELL_RATIO :: jsnum
  TARGET_MC_1 :: jsnum
  TARGET_MC_1_RATIO :: jsnum
  TARGET_MC_2 :: jsnum
  TARGET_MC_2_RATIO :: jsnum
  LFG_SELL_RATIO :: jsnum

section \<open>State\<close>

text \<open>The three tables of the SQLite database, rows in insertion order.\<close>

record store =
  positions :: "Position list"
  orders :: "Order list"
  trade_history :: "TradeHistoryRecord list"

text \<open>A call either returns a value or throws an error with a message.\<close>

datatype 'a outcome = Returns 'a | Throws string

text \<open>
  The state the engines share, and what the outside world will answer:
  \<^item> \<open>db\<close>: the database; \<open>executingOrders\<close>, \<open>orderCounter\<close>: the fields of
    \<open>OrderManager\<close>; \<open>processing\<close>: the field of \<open>WebSocketHandler\<close>;
  \<^item> \<open>dbFaults\<close>: one entry per data-modifying SQL statement still to run, \<open>True\<close>
    where the driver raises (disk full, database locked or closed); once the list
    is used up the driver raises on constraint violations only;
  \<^item> \<open>balances\<close>: one entry per \<open>getTokenBalance(new PublicKey(address))\<close> still to
    run: the constructor throws on a malformed address (\<open>InvalidPublicKey\<close>),
    otherwise the call yields the token amount or \<open>null\<close>; \<open>null\<close> once the list
    is used up;
  \<^item> \<open>swaps\<close>: one entry per \<open>executeJupiterSwap\<close> call still to run, the
    transaction signature or \<open>null\<close>; \<open>null\<close> once the list is used up;
  \<^item> \<open>now\<close>: what \<open>Date.now()\<close> reads; \<open>random\<close>: what
    \<open>Math.floor(Math.random() * 1000)\<close> yields.
  Logging and Telegram notifications are outputs that nothing reads back; they are
  left out.  Awaited calls run to completion one after the other.
\<close>

datatype balance_answer = InvalidPublicKey | Balance "nat option"

record world =
  db :: store
  executingOrders :: "OrderId set"
  orderCounter :: nat
  processing :: "string set"
  dbFaults :: "bool list"
  balances :: "balance_answer list"
  swaps :: "string option list"
  now :: nat
  random :: nat

type_synonym 'a io = "world \<Rightarrow> 'a outcome \<times> world"

definition ret :: "'a \<Rightarrow> 'a io" where
  "ret x = (\<lambda>w. (Returns x, w))"

text \<open>Sequencing: a throw in the first part skips the rest.\<close>

definition bnd :: "'a io \<Rightarrow> ('a \<Rightarrow> 'b io) \<Rightarrow> 'b io" where
  "bnd m f = (\<lambda>w. case m w of (Returns x, w') \<Rightarrow> f x w' | (Throws e, w') \<Rightarrow> (Throws e, w'))"

text \<open>\<open>try { m } catch (error) { h error.message }\<close>.\<close>

definition try_catch :: "'a io \<Rightarrow> (string \<Rightarrow> 'a io) \<Rightarrow> 'a io" where
  "try_catch m h = (\<lambda>w. case m w of (Returns x, w') \<Rightarrow> (Returns x, w') | (Throws e, w') \<Rightarrow> h e w')"


section \<open>TradingDatabase\<close>

text \<open>
  Each data-modifying method prepares one SQL statement and runs it.  A statement is
  a function on the tables that fails on a violated constraint of the schema and
  otherwise yields the number of rows changed; \<open>run\<close> adds the driver: it raises
  when the next entry of \<open>dbFaults\<close> says so, and leaves the tables as they were
  whenever it raises.
\<close>

definition run :: "(store \<Rightarrow> string + nat \<times> store) \<Rightarrow> nat io" where
  "run stmt w =
     (let w1 = w\<lparr>dbFaults := tl (dbFaults w)\<rparr> in
      if dbFaults w \<noteq> [] \<and> hd (dbFaults w) then (Throws ''SqliteError'', w1)
      else case stmt (db w) of
             Inl e \<Rightarrow> (Throws e, w1)
           | Inr (n, s) \<Rightarrow> (Returns n, w1\<lparr>db := s\<rparr>))"

text \<open>\<open>x || null\<close> for an optional timestamp and an optional string.\<close>

definition or_null_nat :: "nat option \<Rightarrow> nat option" where
  "or_null_nat x = (if x = Some 0 then None else x)"

definition or_null_str :: "string option \<Rightarrow> string option" where
  "or_null_str x = (if x = Some [] then None else x)"

text \<open>
  \<open>INSERT INTO positions\<close>: \<open>id\<close> is the primary key, \<open>address\<close> is \<open>UNIQUE\<close>,
  \<open>symbol\<close> is \<open>NOT NULL\<close>.
\<close>

definition sql_insertPosition :: "Position \<Rightarrow> store \<Rightarrow> string + nat \<times> store" where
  "sql_insertPosition p s =
     (if p_id p \<in> set (map p_id (positions s)) then Inl ''UNIQUE constraint failed: positions.id''
      else if p_address p \<in> set (map p_address (positions s))
        then Inl ''UNIQUE constraint failed: positions.address''
      else if p_symbol p = None then Inl ''NOT NULL constraint failed: positions.symbol''
      else Inr (1, s\<lparr>positions := positions s @ [p]\<rparr>))"

text \<open>
  \<open>UPDATE positions SET current_price, highest_price, lowest_price, last_updated,
  lfg WHERE id = ?\<close>, the flag bound as \<open>position.lfg || 0\<close>.
\<close>

definition set_price_columns :: "Position \<Rightarrow> Position \<Rightarrow> Position" where
  "set_price_columns p row =
     row\<lparr>p_currentPrice := p_currentPrice p,
         p_highestPrice := p_highestPrice p,
         p_lowestPrice := p_lowestPrice p,
         p_lastUpdated := p_lastUpdated p,
         p_lfg := (if js_truthy (p_lfg p) then p_lfg p else Fin 0)\<rparr>"

definition sql_updatePosition :: "Position \<Rightarrow> store \<Rightarrow> string + nat \<times> store" where
  "sql_updatePosition p s =
     Inr (length (filter (\<lambda>row. p_id row = p_id p) (positions s)),
          s\<lparr>positions := map (\<lambda>row. if p_id row = p_id p then set_price_columns p row else row)
                              (positions s)\<rparr>)"

text \<open>
  \<open>DELETE FROM positions WHERE id = ?\<close>; the orders of a deleted position go with
  it (\<open>ON DELETE CASCADE\<close>).
\<close>

definition sql_deletePosition :: "string \<Rightarrow> store \<Rightarrow> string + nat \<times> store" where
  "sql_deletePosition positionId s =
     (let n = length (filter (\<lambda>row. p_id row = positionId) (positions s)) in
      Inr (n, s\<lparr>positions := filter (\<lambda>row. p_id row \<noteq> positionId) (positions s),
                 orders := (if n = 0 then orders s
                            else filter (\<lambda>row. o_positionId row \<noteq> positionId) (orders s))\<rparr>))"

text \<open>
  \<open>INSERT INTO orders\<close>: \<open>id\<close> is the primary key, \<open>position_id\<close> references
  \<open>positions(id)\<close>; the columns the statement does not name start as \<open>NULL\<close>.
\<close>

definition sql_insertOrder :: "Order \<Rightarrow> store \<Rightarrow> string + nat \<times> store" where
  "sql_insertOrder order s =
     (if o_id order \<in> set (map o_id (orders s)) then Inl ''UNIQUE constraint failed: orders.id''
      else if o_positionId order \<notin> set (map p_id (positions s))
        then Inl ''FOREIGN KEY constraint failed''
      else Inr (1, s\<lparr>orders := orders s @
                  [order\<lparr>o_triggeredAt := None, o_executedAt := None,
                         o_signature := None, o_error := None\<rparr>]\<rparr>))"

text \<open>
  \<open>UPDATE orders SET status, triggered_at, executed_at, signature, error,
  retry_count WHERE id = ?\<close>.
\<close>

definition set_order_columns :: "Order \<Rightarrow> Order \<Rightarrow> Order" where
  "set_order_columns order row =
     row\<lparr>o_status := o_status order,
         o_triggeredAt := or_null_nat (o_triggeredAt order),
         o_executedAt := or_null_nat (o_executedAt order),
         o_signature := or_null_str (o_signature order),
         o_error := or_null_str (o_error order),
         o_retryCount := o_retryCount order\<rparr>"

definition sql_updateOrder :: "Order \<Rightarrow> store \<Rightarrow> string + nat \<times> store" where
  "sql_updateOrder order s =
     Inr (length (filter (\<lambda>row. o_id row = o_id order) (orders s)),
          s\<lparr>orders := map (\<lambda>row. if o_id row = o_id order then set_order_columns order row else row)
                           (orders s)\<rparr>)"

text \<open>\<open>UPDATE orders SET status = 'CANCELLED' WHERE ... AND status = 'PENDING'\<close>.\<close>

definition sql_cancel :: "(Order \<Rightarrow> bool) \<Rightarrow> store \<Rightarrow> string + nat \<times> store" where
  "sql_cancel sel s =
     Inr (length (filter (\<lambda>row. sel row \<and> o_status row = PENDING) (orders s)),
          s\<lparr>orders := map (\<lambda>row. if sel row \<and> o_status row = PENDING
                                  then row\<lparr>o_status := CANCELLED\<rparr> else row) (orders s)\<rparr>)"

text \<open>
  \<open>INSERT INTO trade_history\<close>, the reason bound as \<open>trade.reason || null\<close>;
  \<open>symbol\<close> is \<open>NOT NULL\<close>.
\<close>

definition sql_insertTradeHistory :: "TradeHistoryRecord \<Rightarrow> store \<Rightarrow> string + nat \<times> store" where
  "sql_insertTradeHistory trade s =
     (if t_symbol trade = None then Inl ''NOT NULL constraint failed: trade_history.symbol''
      else Inr (1, s\<lparr>trade_history := trade_history s @
                  [trade\<lparr>t_reason := or_null_str (t_reason trade)\<rparr>]\<rparr>))"

definition insertPosition :: "Position \<Rightarrow> nat io" where
  "insertPosition position = run (sql_insertPosition position)"

definition db_updatePosition :: "Position \<Rightarrow> nat io" where
  "db_updatePosition position = run (sql_updatePosition position)"

definition deletePosition :: "string \<Rightarrow> nat io" where
  "deletePosition positionId = run (sql_deletePosition positionId)"

definition insertOrder :: "Order \<Rightarrow> nat io" where
  "insertOrder order = run (sql_insertOrder order)"

definition updateOrder :: "Order \<Rightarrow> nat io" where
  "updateOrder order = run (sql_updateOrder order)"

definition cancelOrder :: "OrderId \<Rightarrow> bool io" where
  "cancelOrder orderId = bnd (run (sql_cancel (\<lambda>row. o_id row = orderId))) (\<lambda>changes. ret (changes > 0))"

definition cancelPositionOrders :: "string \<Rightarrow> nat io" where
  "cancelPositionOrders positionId = run (sql_cancel (\<lambda>row. o_positionId row = positionId))"

definition insertTradeHistory :: "TradeHistoryRecord \<Rightarrow> nat io" where
  "insertTradeHistory trade = run (sql_insertTradeHistory trade)"

text \<open>
  The queries.  \<open>ORDER BY\<close> is a stable sort of the rows in insertion order (SQL
  leaves the order of rows with equal keys open).
\<close>

definition getPosition :: "store \<Rightarrow> string \<Rightarrow> Position option" where
  "getPosition s address = find (\<lambda>row. p_address row = address) (positions s)"

definition getActivePositions :: "store \<Rightarrow> Position list" where
  "getActivePositions s =
     sort_key (\<lambda>row. - int (p_entryTime row)) (filter (\<lambda>row. p_status row = ACTIVE) (positions s))"

definition getPositionCount :: "store \<Rightarrow> nat" where
  "getPositionCount s = length (filter (\<lambda>row. p_status row = ACTIVE) (positions s))"

definition getOrder :: "store \<Rightarrow> OrderId \<Rightarrow> Order option" where
  "getOrder s orderId = find (\<lambda>row. o_id row = orderId) (orders s)"

definition getPositionOrders :: "store \<Rightarrow> string \<Rightarrow> Order list" where
  "getPositionOrders s positionId =
     sort_key (\<lambda>row. - int (o_createdAt row)) (filter (\<lambda>row. o_positionId row = positionId) (orders s))"

definition getPendingOrders :: "store \<Rightarrow> Order list" where
  "getPendingOrders s = sort_key o_createdAt (filter (\<lambda>row. o_status row = PENDING) (orders s))"


section \<open>The swap venue\<close>

text \<open>
  \<open>getTokenBalance(new PublicKey(address))\<close> and \<open>executeJupiterSwap(params)\<close> talk to
  the chain; each takes its answer from the head of the world's list.
  \<open>getTokenBalance\<close> and \<open>executeJupiterSwap\<close> catch every error themselves and then
  yield \<open>null\<close>.
\<close>

definition getTokenBalance :: "string \<Rightarrow> nat option io" where
  "getTokenBalance address w =
     (case balances w of
        [] \<Rightarrow> (Returns None, w)
      | InvalidPublicKey # bs \<Rightarrow> (Throws ''Invalid public key input'', w\<lparr>balances := bs\<rparr>)
      | Balance b # bs \<Rightarrow> (Returns b, w\<lparr>balances := bs\<rparr>))"

definition executeJupiterSwap :: "SwapParams \<Rightarrow> string option io" where
  "executeJupiterSwap params w =
     (case swaps w of [] \<Rightarrow> (Returns None, w) | sg # sgs \<Rightarrow> (Returns sg, w\<lparr>swaps := sgs\<rparr>))"

text \<open>Truthiness of an optional string: \<open>undefined\<close>, \<open>null\<close> and \<open>""\<close> are falsy.\<close>

definition truthy_str :: "string option \<Rightarrow> bool" where
  "truthy_str x = (x \<noteq> None \<and> x \<noteq> Some [])"

definition ok_result :: "string option \<Rightarrow> OrderExecutionResult" where
  "ok_result sg = \<lparr>success = True, signature = sg, error = None\<rparr>"

definition failed_result :: "string \<Rightarrow> OrderExecutionResult" where
  "failed_result msg = \<lparr>success = False, signature = None, error = Some msg\<rparr>"

definition SOL_MINT :: string where
  "SOL_MINT = ''So11111111111111111111111111111111111111112''"

definition LAMPORTS_PER_SOL :: jsnum where
  "LAMPORTS_PER_SOL = Fin 1000000000"

definition executeBuy :: "TradingConfig \<Rightarrow> Position \<Rightarrow> OrderExecutionResult io" where
  "executeBuy cfg position =
     try_catch
       (if \<not> TRADE_ENABLED cfg then ret (ok_result None)
        else bnd (executeJupiterSwap
                    \<lparr>inputMint = SOL_MINT, outputMint = p_address position,
                     amount = js_mul (p_solInvested position) LAMPORTS_PER_SOL,
                     slippageBps = 4000\<rparr>)
               (\<lambda>sg. if truthy_str sg then ret (ok_result sg)
                     else ret (failed_result ''Failed to get swap signature'')))
       (\<lambda>msg. ret (failed_result msg))"

text \<open>\<open>BigInt(x)\<close> throws a RangeError unless \<open>x\<close> is an integer.\<close>

definition BigInt :: "jsnum \<Rightarrow> int io" where
  "BigInt x =
     (case x of
        Fin r \<Rightarrow> if r = of_int \<lfloor>r\<rfloor> then ret \<lfloor>r\<rfloor>
                 else (\<lambda>w. (Throws ''RangeError: not an integer'', w))
      | _ \<Rightarrow> (\<lambda>w. (Throws ''RangeError: not an integer'', w)))"

text \<open>Division of big integers truncates towards zero.\<close>

definition bigint_div :: "int \<Rightarrow> int \<Rightarrow> int" where
  "bigint_div x y = (if x < 0 then - ((- x) div y) else x div y)"

definition executeSell ::
  "TradingConfig \<Rightarrow> string \<Rightarrow> string option \<Rightarrow> jsnum \<Rightarrow> jsnum \<Rightarrow> string \<Rightarrow> OrderExecutionResult io" where
  "executeSell cfg address symbol gain sellRatio reason =
     try_catch
       (if \<not> TRADE_ENABLED cfg then ret (ok_result None)
        else bnd (getTokenBalance address) (\<lambda>balance.
          case balance of
            None \<Rightarrow> ret (failed_result ''No token balance found'')
          | Some totalTokenBalance \<Rightarrow>
              if totalTokenBalance = 0 then ret (failed_result ''No token balance found'')
              else bnd (BigInt sellRatio) (\<lambda>ratio.
                bnd (executeJupiterSwap
                       \<lparr>inputMint = address, outputMint = SOL_MINT,
                        amount = round_double (of_int (bigint_div (int totalTokenBalance * ratio) 100)),
                        slippageBps = 4000\<rparr>)
                  (\<lambda>sg. if truthy_str sg then ret (ok_result sg)
                        else ret (failed_result ''Failed to get swap signature'')))))
       (\<lambda>msg. ret (failed_result msg))"

section \<open>OrderManager\<close>

definition Date_now :: "nat io" where
  "Date_now w = (Returns (now w), w)"

definition generateOrderId :: "string \<Rightarrow> OrderType \<Rightarrow> OrderId io" where
  "generateOrderId positionId ty w =
     (let w1 = w\<lparr>orderCounter := Suc (orderCounter w)\<rparr>
      in (Returns (positionId, ty, now w1, orderCounter w1, random w1), w1))"

definition createOrder :: "OrderCreationParams \<Rightarrow> Order io" where
  "createOrder params =
     bnd (generateOrderId (c_positionId params) (c_type params)) (\<lambda>oid.
     bnd Date_now (\<lambda>t.
       let order = \<lparr>o_id = oid,
                    o_positionId = c_positionId params,
                    o_type = c_type params,
                    o_status = PENDING,
                    o_sellRatio = c_sellRatio params,
                    o_triggerType = c_triggerType params,
                    o_triggerCondition = c_triggerCondition params,
                    o_triggerValue = c_triggerValue params,
                    o_triggerDescription = c_triggerDescription params,
                    o_createdAt = t,
                    o_triggeredAt = None,
                    o_executedAt = None,
                    o_signature = None,
                    o_error = None,
                    o_retryCount = 0,
                    o_description = c_description params\<rparr>
       in bnd (insertOrder order) (\<lambda>_. ret order)))"

definition checkCondition :: "jsnum \<Rightarrow> TriggerCondition \<Rightarrow> jsnum \<Rightarrow> bool" where
  "checkCondition actual condition target =
     (case condition of
        GTE \<Rightarrow> js_ge actual target
      | LTE \<Rightarrow> js_le actual target
      | EQ \<Rightarrow> js_eq actual target)"

text \<open>\<open>((currentPrice - entryPrice) / entryPrice) * 100\<close>, as each caller writes it out.\<close>

definition calculateGain :: "Position \<Rightarrow> jsnum" where
  "calculateGain position =
     js_mul (js_div (js_sub (p_currentPrice position) (p_entryPrice position)) (p_entryPrice position))
            (Fin 100)"

definition shouldTriggerOrder :: "Order \<Rightarrow> Position \<Rightarrow> bool" where
  "shouldTriggerOrder order position =
     (case o_triggerType order of
        PRICE \<Rightarrow> checkCondition (p_currentPrice position) (o_triggerCondition order) (o_triggerValue order)
      | GAIN_PERCENT \<Rightarrow>
          (let gain = js_mul (js_div (js_sub (p_currentPrice position) (p_entryPrice position))
                                     (p_entryPrice position)) (Fin 100)
           in checkCondition gain (o_triggerCondition order) (o_triggerValue order))
      | LFG_FLAG \<Rightarrow> js_eq (p_lfg position) (o_triggerValue order)
      | IMMEDIATE \<Rightarrow> True)"

definition executeBuyOrder :: "TradingConfig \<Rightarrow> Order \<Rightarrow> Position \<Rightarrow> OrderExecutionResult io" where
  "executeBuyOrder cfg order position =
     try_catch (executeBuy cfg position) (\<lambda>msg. ret (failed_result msg))"

definition NO_BALANCE :: string where
  "NO_BALANCE = ''No token balance available & shouldClosePosition''"

text \<open>
  For an \<open>LFG_SELL\<close> order the source first waits two seconds; the wait changes
  nothing in the state.
\<close>

definition executeSellOrder :: "TradingConfig \<Rightarrow> Order \<Rightarrow> Position \<Rightarrow> OrderExecutionResult io" where
  "executeSellOrder cfg order position =
     try_catch
       (bnd (getTokenBalance (p_address position)) (\<lambda>currentTokenBalance.
          if currentTokenBalance = Some 0
          then ret \<lparr>success = True, signature = None, error = Some NO_BALANCE\<rparr>
          else executeSell cfg (p_address position) (p_symbol position) (calculateGain position)
                 (o_sellRatio order) (o_description order)))
       (\<lambda>msg. ret (failed_result msg))"

definition tradeRecord :: "Order \<Rightarrow> Position \<Rightarrow> string \<Rightarrow> nat \<Rightarrow> TradeHistoryRecord" where
  "tradeRecord order position sg t =
     \<lparr>t_positionId = p_id position,
      t_orderId = o_id order,
      t_symbol = p_symbol position,
      t_address = p_address position,
      t_type = o_type order,
      t_sellRatio = o_sellRatio order,
      t_entryPrice = p_entryPrice position,
      t_exitPrice = p_currentPrice position,
      t_gainPercent = calculateGain position,
      t_executedAt = t div 1000,
      t_signature = sg,
      t_reason = Some (o_description order)\<rparr>"

definition recordTradeHistory :: "Order \<Rightarrow> Position \<Rightarrow> OrderExecutionResult \<Rightarrow> unit io" where
  "recordTradeHistory order position result =
     (if o_type order = MARKET_BUY \<or> \<not> truthy_str (signature result) then ret ()
      else case signature result of
             None \<Rightarrow> ret ()
           | Some sg \<Rightarrow> bnd Date_now (\<lambda>t.
               bnd (insertTradeHistory (tradeRecord order position sg t)) (\<lambda>_. ret ())))"

text \<open>
  The \<open>try\<close> block of \<open>executeOrder\<close>.  It mutates the order object, so it yields the
  object as it stands when the block ends or throws, for the \<open>catch\<close> block to go on
  from.
\<close>

definition executeOrder_try ::
  "TradingConfig \<Rightarrow> Order \<Rightarrow> Position \<Rightarrow> world \<Rightarrow> OrderExecutionResult outcome \<times> Order \<times> world" where
  "executeOrder_try cfg order position w =
     (case (if o_type order = MARKET_BUY then executeBuyOrder cfg order position
            else executeSellOrder cfg order position) w of
        (Throws e, w1) \<Rightarrow> (Throws e, order, w1)
      | (Returns result, w1) \<Rightarrow>
          if success result then
            (let order1 = order\<lparr>o_status := COMPLETED,
                                o_executedAt := Some (now w1),
                                o_signature := signature result\<rparr>
             in case recordTradeHistory order1 position result w1 of
                  (Throws e, w2) \<Rightarrow> (Throws e, order1, w2)
                | (Returns _, w2) \<Rightarrow>
                    (case updateOrder order1 w2 of
                       (Throws e, w3) \<Rightarrow> (Throws e, order1, w3)
                     | (Returns _, w3) \<Rightarrow> (Returns result, order1, w3)))
          else
            (let order1 = order\<lparr>o_status := FAILED,
                                o_error := error result,
                                o_retryCount := Suc (o_retryCount order)\<rparr>
             in case updateOrder order1 w1 of
                  (Throws e, w2) \<Rightarrow> (Throws e, order1, w2)
                | (Returns _, w2) \<Rightarrow> (Returns result, order1, w2)))"

text \<open>The \<open>catch\<close> block, entered with the message thrown.\<close>

definition executeOrder_catch ::
  "string \<Rightarrow> Order \<Rightarrow> world \<Rightarrow> OrderExecutionResult outcome \<times> Order \<times> world" where
  "executeOrder_catch msg order w =
     (let order1 = order\<lparr>o_status := FAILED,
                         o_error := Some msg,
                         o_retryCount := Suc (o_retryCount order)\<rparr>
      in case updateOrder order1 w of
           (Throws e, w1) \<Rightarrow> (Throws e, order1, w1)
         | (Returns _, w1) \<Rightarrow> (Returns (failed_result msg), order1, w1))"

text \<open>
  \<open>executeOrder\<close> yields its result together with the order object as the call left
  it.  The \<open>finally\<close> block runs after the \<open>try\<close> and the \<open>catch\<close> block, however they
  end; the two statements before the \<open>try\<close> are outside it.
\<close>

definition executeOrder ::
  "TradingConfig \<Rightarrow> Order \<Rightarrow> Position \<Rightarrow> (OrderExecutionResult \<times> Order) io" where
  "executeOrder cfg order position w =
     (if o_id order \<in> executingOrders w
      then (Returns (failed_result ''Order already executing'', order), w)
      else
        let w1 = w\<lparr>executingOrders := insert (o_id order) (executingOrders w)\<rparr>;
            order1 = order\<lparr>o_status := EXECUTING\<rparr>
        in case updateOrder order1 w1 of
             (Throws e, w2) \<Rightarrow> (Throws e, w2)
           | (Returns _, w2) \<Rightarrow>
               (let (r, order2, w3) =
                      (case executeOrder_try cfg order1 position w2 of
                         (Throws msg, order', w') \<Rightarrow> executeOrder_catch msg order' w'
                       | (Returns result, order', w') \<Rightarrow> (Returns result, order', w'));
                    w4 = w3\<lparr>executingOrders := executingOrders w3 - {o_id order}\<rparr>
                in case r of
                     Throws e \<Rightarrow> (Throws e, w4)
                   | Returns result \<Rightarrow> (Returns (result, order2), w4)))"

text \<open>
  The loop of \<open>checkAndExecuteOrders\<close> over the pending orders fetched at its start;
  \<open>break\<close> ends it with the close signal set.
\<close>

fun checkLoop :: "TradingConfig \<Rightarrow> Position \<Rightarrow> Order list \<Rightarrow> world \<Rightarrow> bool outcome \<times> world" where
  "checkLoop cfg position [] w = (Returns False, w)"
| "checkLoop cfg position (order # rest) w =
     (if shouldTriggerOrder order position then
        (let order1 = order\<lparr>o_status := TRIGGERED, o_triggeredAt := Some (now w)\<rparr>
         in case updateOrder order1 w of
              (Throws e, w1) \<Rightarrow> (Throws e, w1)
            | (Returns _, w1) \<Rightarrow>
                (case executeOrder cfg order1 position w1 of
                   (Throws e, w2) \<Rightarrow> (Throws e, w2)
                 | (Returns (result, order2), w2) \<Rightarrow>
                     if \<not> success result \<and> error result = Some NO_BALANCE then (Returns True, w2)
                     else if success result \<and> js_ge (o_sellRatio order2) (Fin 100)
                       then (Returns True, w2)
                     else checkLoop cfg position rest w2))
      else checkLoop cfg position rest w)"

definition checkAndExecuteOrders :: "TradingConfig \<Rightarrow> Position \<Rightarrow> bool io" where
  "checkAndExecuteOrders cfg position w =
     checkLoop cfg position
       (filter (\<lambda>order. o_status order = PENDING) (getPositionOrders (db w) (p_id position))) w"

definition createAndExecuteImmediateOrder ::
  "TradingConfig \<Rightarrow> OrderCreationParams \<Rightarrow> Position \<Rightarrow> bool io" where
  "createAndExecuteImmediateOrder cfg params position =
     bnd (createOrder params) (\<lambda>order.
     bnd (executeOrder cfg order position) (\<lambda>(result, order'). ret (success result)))"


section \<open>PositionManager\<close>

text \<open>
  The default order set.  The two description texts of an order interpolate the
  configured number; the model keeps the fixed part of the text.
\<close>

definition createDefaultOrders :: "TradingConfig \<Rightarrow> Position \<Rightarrow> unit io" where
  "createDefaultOrders cfg position =
     bnd (createOrder
            \<lparr>c_positionId = p_id position, c_type = STOP_LOSS, c_sellRatio = Fin 100,
             c_triggerType = GAIN_PERCENT, c_triggerCondition = LTE,
             c_triggerValue = INITIAL_STOP_LOSS cfg,
             c_triggerDescription = ''stop loss'', c_description = ''Initial stop loss''\<rparr>) (\<lambda>_.
     bnd (if js_gt (DOUBLE_SELL_RATIO cfg) (Fin 0) \<and> js_lt (p_entryPrice position) (Fin 30000)
          then bnd (createOrder
                      \<lparr>c_positionId = p_id position, c_type = TAKE_PROFIT,
                       c_sellRatio = DOUBLE_SELL_RATIO cfg,
                       c_triggerType = GAIN_PERCENT, c_triggerCondition = GTE,
                       c_triggerValue = DOUBLE_PROFIT_THRESHOLD cfg,
                       c_triggerDescription = ''double profit'', c_description = ''Double profit''\<rparr>)
                 (\<lambda>_. ret ())
          else ret ()) (\<lambda>_.
     bnd (if js_gt (TARGET_MC_1 cfg) (Fin 0)
          then bnd (createOrder
                      \<lparr>c_positionId = p_id position, c_type = TAKE_PROFIT,
                       c_sellRatio = TARGET_MC_1_RATIO cfg,
                       c_triggerType = PRICE, c_triggerCondition = GTE,
                       c_triggerValue = TARGET_MC_1 cfg,
                       c_triggerDescription = ''target MC'', c_description = ''Target MC''\<rparr>)
                 (\<lambda>_. ret ())
          else ret ()) (\<lambda>_.
     bnd (if js_gt (TARGET_MC_2 cfg) (Fin 0)
          then bnd (createOrder
                      \<lparr>c_positionId = p_id position, c_type = TAKE_PROFIT,
                       c_sellRatio = TARGET_MC_2_RATIO cfg,
                       c_triggerType = PRICE, c_triggerCondition = GTE,
                       c_triggerValue = TARGET_MC_2 cfg,
                       c_triggerDescription = ''target MC'', c_description = ''Target MC''\<rparr>)
                 (\<lambda>_. ret ())
          else ret ()) (\<lambda>_.
     (if js_gt (LFG_SELL_RATIO cfg) (Fin 0)
      then bnd (createOrder
                  \<lparr>c_positionId = p_id position, c_type = LFG_SELL,
                   c_sellRatio = LFG_SELL_RATIO cfg,
                   c_triggerType = LFG_FLAG, c_triggerCondition = EQ,
                   c_triggerValue = Fin 1,
                   c_triggerDescription = ''LFG flag'', c_description = ''LFG triggered sell''\<rparr>)
             (\<lambda>_. ret ())
      else ret ())))))"

text \<open>
  \<open>createPosition\<close>: the two guards, then the position object
  (\<open>newPosition\<close>), the \<open>try\<close> block (\<open>createPosition_try\<close>: insert the row, create
  the default orders, buy, delete the row again if the buy failed), and the
  \<open>catch\<close> block, which logs and returns \<open>null\<close>.
\<close>

definition newPosition :: "TokenData \<Rightarrow> jsnum \<Rightarrow> nat \<Rightarrow> Position" where
  "newPosition token solInvested t =
     (let address = tk_a token; symbol = tk_s token; currentPrice = tk_mc token
      in \<lparr>p_id = address, p_address = address, p_symbol = symbol,
          p_entryPrice = currentPrice, p_currentPrice = currentPrice,
          p_highestPrice = currentPrice, p_lowestPrice = currentPrice,
          p_solInvested = solInvested,
          p_entryTime = t, p_lastUpdated = t,
          p_status = ACTIVE, p_lfg = Fin 0\<rparr>)"

definition createPosition_try :: "TradingConfig \<Rightarrow> Position \<Rightarrow> Position option io" where
  "createPosition_try cfg position =
     bnd (insertPosition position) (\<lambda>_.
     bnd (createDefaultOrders cfg position) (\<lambda>_.
     bnd (executeBuy cfg position) (\<lambda>buyResult.
       if \<not> success buyResult
       then bnd (deletePosition (p_id position)) (\<lambda>_. ret None)
       else ret (Some position))))"

definition createPosition :: "TradingConfig \<Rightarrow> TokenData \<Rightarrow> jsnum \<Rightarrow> Position option io" where
  "createPosition cfg token solInvested w =
     (let address = tk_a token;
          activeCount = getPositionCount (db w)
      in if int activeCount \<ge> MAX_POSITIONS cfg then (Returns None, w)
         else case getPosition (db w) address of
                Some existing \<Rightarrow> (Returns None, w)
              | None \<Rightarrow>
                  try_catch (createPosition_try cfg (newPosition token solInvested (now w)))
                    (\<lambda>msg. ret None) w)"

definition closePosition :: "string \<Rightarrow> unit io" where
  "closePosition address w =
     (case getPosition (db w) address of
        None \<Rightarrow> (Returns (), w)
      | Some position \<Rightarrow>
          bnd (cancelPositionOrders (p_id position)) (\<lambda>cancelledCount.
          bnd (deletePosition (p_id position)) (\<lambda>_. ret ())) w)"

definition updatePosition ::
  "TradingConfig \<Rightarrow> string \<Rightarrow> jsnum \<Rightarrow> jsnum \<Rightarrow> Position option io" where
  "updatePosition cfg address newPrice lfg w =
     (case getPosition (db w) address of
        None \<Rightarrow> (Returns None, w)
      | Some position0 \<Rightarrow>
          (let position =
                 position0\<lparr>p_currentPrice := newPrice,
                           p_highestPrice := js_max (p_highestPrice position0) newPrice,
                           p_lowestPrice := js_min (p_lowestPrice position0) newPrice,
                           p_lastUpdated := now w,
                           p_lfg := (if js_truthy lfg then Fin 1 else Fin 0)\<rparr>
           in bnd (db_updatePosition position) (\<lambda>_.
              bnd (checkAndExecuteOrders cfg position) (\<lambda>shouldClosePosition.
                if shouldClosePosition then bnd (closePosition address) (\<lambda>_. ret None)
                else ret (Some position))) w))"

definition closePositionManually :: "TradingConfig \<Rightarrow> string \<Rightarrow> bool io" where
  "closePositionManually cfg address w =
     (case getPosition (db w) address of
        None \<Rightarrow> (Returns False, w)
      | Some position \<Rightarrow>
          bnd (createAndExecuteImmediateOrder cfg
                 \<lparr>c_positionId = p_id position, c_type = TAKE_PROFIT, c_sellRatio = Fin 100,
                  c_triggerType = IMMEDIATE, c_triggerCondition = EQ, c_triggerValue = Fin 0,
                  c_triggerDescription = ''manual close'',
                  c_description = ''Manual position close''\<rparr> position) (\<lambda>ok.
            if ok then bnd (closePosition address) (\<lambda>_. ret True) else ret False) w)"

fun closeEach :: "TradingConfig \<Rightarrow> Position list \<Rightarrow> world \<Rightarrow> unit outcome \<times> world" where
  "closeEach cfg [] w = (Returns (), w)"
| "closeEach cfg (position # rest) w =
     (case closePositionManually cfg (p_address position) w of
        (Throws e, w1) \<Rightarrow> (Throws e, w1)
      | (Returns _, w1) \<Rightarrow> closeEach cfg rest w1)"

definition emergencyCloseAll :: "TradingConfig \<Rightarrow> unit io" where
  "emergencyCloseAll cfg w = closeEach cfg (getActivePositions (db w)) w"

definition addCustomOrder :: "string \<Rightarrow> OrderCreationParams \<Rightarrow> bool io" where
  "addCustomOrder address orderParams w =
     (case getPosition (db w) address of
        None \<Rightarrow> (Returns False, w)
      | Some position \<Rightarrow>
          try_catch
            (bnd (createOrder (orderParams\<lparr>c_positionId := p_id position\<rparr>)) (\<lambda>_. ret True))
            (\<lambda>msg. ret False) w)"

definition removeOrder :: "string \<Rightarrow> OrderId \<Rightarrow> bool io" where
  "removeOrder address orderId w =
     (case getPosition (db w) address of
        None \<Rightarrow> (Returns False, w)
      | Some position \<Rightarrow> cancelOrder orderId w)"

section \<open>Admission filter and ingress\<close>

text \<open>
  \<open>filterToken\<close>; a decimal literal of the source that is no double (\<open>0.15\<close>, \<open>0.3\<close>)
  stands for the double nearest to it.
\<close>

definition filterToken :: "TokenData \<Rightarrow> nat \<Rightarrow> bool" where
  "filterToken item t =
     (let currentTime = js_div (Fin (real t)) (Fin 1000);
          ageInMinutes = js_div (js_sub currentTime (tk_ct item)) (Fin 60);
          oneSocial = (truthy_str (tk_m_t item) \<or> truthy_str (tk_m_w item) \<or> truthy_str (tk_m_x item));
          flgFilter =
            (js_ge (tk_mc item) (Fin 20000) \<and> js_le (tk_mc item) (Fin 50000) \<and>
             js_gt (tk_hd item) (Fin 200) \<and>
             js_truthy (tk_pg item) \<and> js_lt (tk_pg item) (Fin 1) \<and>
             js_lt (tk_etpr item) (Fin 8) \<and>
             js_lt (tk_rat item) (Fin 8) \<and>
             js_gt (tk_v1h item) (Fin 10000) \<and>
             js_lt (tk_t70_shr item) (Fin (1 / 4)) \<and>
             js_ge (tk_kol item) (Fin 4) \<and>
             js_ge (tk_t10 item) (round_double (15 / 100)) \<and>
             js_le (tk_t10 item) (round_double (30 / 100)) \<and>
             js_gt ageInMinutes (Fin 3))
      in flgFilter \<and> tk_d_ts item = ''creator_close'' \<and> tk_s_brs item = ''burn'' \<and>
         tk_mt item = ''full'' \<and> \<not> js_truthy (tk_lc_flg item) \<and> oneSocial)"

text \<open>
  \<open>processToken\<close>: the guard on the tick, the per-address processing guard, then the
  \<open>try\<close> block (\<open>processToken_try\<close>), whose \<open>catch\<close> logs and whose \<open>finally\<close>
  releases the address.
\<close>

definition processToken_try :: "TradingConfig \<Rightarrow> TokenData \<Rightarrow> unit io" where
  "processToken_try cfg token w =
     (case getPosition (db w) (tk_a token) of
        None \<Rightarrow>
          (if filterToken token (now w)
           then bnd (createPosition cfg token (SOL_INVESTMENT_AMOUNT cfg)) (\<lambda>position. ret ()) w
           else (Returns (), w))
      | Some position \<Rightarrow>
          bnd (updatePosition cfg (tk_a token) (tk_mc token) (tk_lc_flg token)) (\<lambda>_. ret ()) w)"

definition processToken :: "TradingConfig \<Rightarrow> TokenData \<Rightarrow> unit io" where
  "processToken cfg token w =
     (let address = tk_a token; symbol = tk_s token; price = tk_mc token
      in if address = [] \<or> \<not> truthy_str symbol \<or> js_isNaN price \<or> js_le price (Fin 0)
         then (Returns (), w)
         else if address \<in> processing w then (Returns (), w)
         else
           (let w1 = w\<lparr>processing := insert address (processing w)\<rparr>;
                (r, w2) = try_catch (processToken_try cfg token) (\<lambda>msg. ret ()) w1
            in (r, w2\<lparr>processing := processing w2 - {address}\<rparr>)))"

section \<open>Runs of the engine\<close>

text \<open>
  The calls the operational layer and the feed make, and what the outside world does
  between two of them: refill its answers and move the clock.
\<close>

datatype call =
    CreatePosition TokenData jsnum
  | UpdatePosition string jsnum jsnum
  | ClosePosition string
  | ClosePositionManually string
  | EmergencyCloseAll
  | ProcessToken TokenData
  | AddCustomOrder string OrderCreationParams
  | RemoveOrder string OrderId
  | CancelOrder OrderId
  | CancelPositionOrders string
  | Outside "bool list" "balance_answer list" "string option list" nat nat

fun perform :: "TradingConfig \<Rightarrow> call \<Rightarrow> world \<Rightarrow> world" where
  "perform cfg (CreatePosition token solInvested) w = snd (createPosition cfg token solInvested w)"
| "perform cfg (UpdatePosition address newPrice lfg) w = snd (updatePosition cfg address newPrice lfg w)"
| "perform cfg (ClosePosition address) w = snd (closePosition address w)"
| "perform cfg (ClosePositionManually address) w = snd (closePositionManually cfg address w)"
| "perform cfg EmergencyCloseAll w = snd (emergencyCloseAll cfg w)"
| "perform cfg (ProcessToken token) w = snd (processToken cfg token w)"
| "perform cfg (AddCustomOrder address params) w = snd (addCustomOrder address params w)"
| "perform cfg (RemoveOrder address orderId) w = snd (removeOrder address orderId w)"
| "perform cfg (CancelOrder orderId) w = snd (cancelOrder orderId w)"
| "perform cfg (CancelPositionOrders positionId) w = snd (cancelPositionOrders positionId w)"
| "perform cfg (Outside faults bals sigs t rnd) w =
     w\<lparr>dbFaults := faults, balances := bals, swaps := sigs, now := t, random := rnd\<rparr>"

fun performAll :: "TradingConfig \<Rightarrow> call list \<Rightarrow> world \<Rightarrow> world" where
  "performAll cfg [] w = w"
| "performAll cfg (c # cs) w = performAll cfg cs (perform cfg c w)"


section \<open>The trigger table of the specification\<close>

text \<open>
  The specification's \<open>compare\<close> and its table of trigger predicates, written from
  its words; the comparisons are those of the language's numbers.  The gain of the
  table is the number \<open>(current - entry) / entry * 100\<close> itself where both prices are
  finite and the entry price is not zero, and what the language gives for the
  expression elsewhere.
\<close>

fun spec_compare :: "jsnum \<Rightarrow> TriggerCondition \<Rightarrow> jsnum \<Rightarrow> bool" where
  "spec_compare actual GTE target = js_ge actual target"
| "spec_compare actual LTE target = js_le actual target"
| "spec_compare actual EQ target = js_eq actual target"

definition spec_gainPercent :: "Position \<Rightarrow> jsnum" where
  "spec_gainPercent position =
     (case (p_currentPrice position, p_entryPrice position) of
        (Fin c, Fin e) \<Rightarrow>
          if e \<noteq> 0 then Fin ((c - e) / e * 100)
          else js_mul (js_div (js_sub (Fin c) (Fin e)) (Fin e)) (Fin 100)
      | (c, e) \<Rightarrow> js_mul (js_div (js_sub c e) e) (Fin 100))"

fun spec_trigger :: "TriggerType \<Rightarrow> TriggerCondition \<Rightarrow> jsnum \<Rightarrow> Position \<Rightarrow> bool" where
  "spec_trigger PRICE cmp threshold position = spec_compare (p_currentPrice position) cmp threshold"
| "spec_trigger GAIN_PERCENT cmp threshold position =
     spec_compare (spec_gainPercent position) cmp threshold"
| "spec_trigger LFG_FLAG cmp threshold position = js_eq (p_lfg position) threshold"
| "spec_trigger IMMEDIATE cmp threshold position = True"

section \<open>Sample data\<close>

definition sample_config :: TradingConfig where
  "sample_config =
     \<lparr>TRADE_ENABLED = True, SOL_INVESTMENT_AMOUNT = Fin (1 / 100), MAX_POSITIONS = 30,
      INITIAL_STOP_LOSS = Fin (- 65), DOUBLE_PROFIT_THRESHOLD = Fin 100,
      DOUBLE_SELL_RATIO = Fin 50, TARGET_MC_1 = Fin 200000, TARGET_MC_1_RATIO = Fin 50,
      TARGET_MC_2 = Fin 900000, TARGET_MC_2_RATIO = Fin 100, LFG_SELL_RATIO = Fin 65\<rparr>"

definition sample_position :: Position where
  "sample_position =
     \<lparr>p_id = ''X'', p_address = ''X'', p_symbol = Some ''SYM'',
      p_entryPrice = Fin 50000, p_currentPrice = Fin 100000,
      p_highestPrice = Fin 100000, p_lowestPrice = Fin 50000,
      p_solInvested = Fin (1 / 100), p_entryTime = 1, p_lastUpdated = 2,
      p_status = ACTIVE, p_lfg = Fin 0\<rparr>"

definition sample_order :: Order where
  "sample_order =
     \<lparr>o_id = (''X'', TAKE_PROFIT, 1, 2, 3), o_positionId = ''X'', o_type = TAKE_PROFIT,
      o_status = PENDING, o_sellRatio = Fin 50, o_triggerType = GAIN_PERCENT,
      o_triggerCondition = GTE, o_triggerValue = Fin 100,
      o_triggerDescription = ''double profit'', o_createdAt = 1, o_triggeredAt = None,
      o_executedAt = None, o_signature = None, o_error = None, o_retryCount = 0,
      o_description = ''Double profit''\<rparr>"

definition sample_world :: world where
  "sample_world =
     \<lparr>db = \<lparr>positions = [sample_position], orders = [sample_order], trade_history = []\<rparr>,
      executingOrders = {}, orderCounter = 2, processing = {}, dbFaults = [],
      balances = [Balance (Some 0)], swaps = [], now = 5, random = 3\<rparr>"

definition sample_token :: TokenData where
  "sample_token =
     \<lparr>tk_a = ''X'', tk_s = Some ''SYM'', tk_mc = NaN, tk_lc_flg = Fin 0, tk_hd = Fin 300,
      tk_pg = Fin (1 / 2), tk_etpr = Fin 1, tk_rat = Fin 1, tk_v1h = Fin 20000,
      tk_t70_shr = Fin (1 / 10), tk_kol = Fin 5, tk_t10 = Fin (2 / 10), tk_ct = Fin 0,
      tk_d_ts = ''creator_close'', tk_s_brs = ''burn'', tk_mt = ''full'',
      tk_m_t = Some ''t'', tk_m_w = None, tk_m_x = None\<rparr>"

section \<open>Predicates on the database\<close>

text \<open>A call preserves a property of the database: it holds afterwards if it held before.\<close>

definition pres :: "(store \<Rightarrow> bool) \<Rightarrow> 'a io \<Rightarrow> bool" where
  "pres P m = (\<forall>w. P (db w) \<longrightarrow> P (db (snd (m w))))"

text \<open>
  The two risk invariants: no two position rows share an address, and the number of
  active positions is at most the configured maximum.
\<close>

definition risk_inv :: "TradingConfig \<Rightarrow> store \<Rightarrow> bool" where
  "risk_inv cfg s =
     (distinct (map p_address (positions s)) \<and> int (getPositionCount s) \<le> MAX_POSITIONS cfg)"

text \<open>The fields of a position that are fixed at its creation.\<close>

definition entry_fields ::
  "Position \<Rightarrow> string \<times> string \<times> string option \<times> jsnum \<times> jsnum \<times> nat \<times> PositionStatus" where
  "entry_fields q =
     (p_id q, p_address q, p_symbol q, p_entryPrice q, p_solInvested q, p_entryTime q, p_status q)"



text \<open>Every position row has the entry fields of a row of the list \<open>c\<close>.\<close>

definition entry_within :: "Position list \<Rightarrow> store \<Rightarrow> bool" where
  "entry_within c s = (set (map entry_fields (positions s)) \<subseteq> set (map entry_fields c))"

text \<open>
  A result is benign unless it is a failure that carries the zero-balance marker;
  \<open>post Q m\<close>: what \<open>m\<close> returns satisfies \<open>Q\<close>, and what it throws is not the
  marker.
\<close>

definition benign :: "OrderExecutionResult \<Rightarrow> bool" where
  "benign result = (success result \<or> error result \<noteq> Some NO_BALANCE)"

definition post :: "('a \<Rightarrow> bool) \<Rightarrow> 'a io \<Rightarrow> bool" where
  "post Q m = (\<forall>w. case fst (m w) of Returns x \<Rightarrow> Q x | Throws e \<Rightarrow> e \<noteq> NO_BALANCE)"

text \<open>The same state with tokens in the wallet and a swap that goes through.\<close>

definition sample_world2 :: world where
  "sample_world2 = sample_world\<lparr>balances := [Balance (Some 1000), Balance (Some 1000)],
                                 swaps := [Some ''sig'']\<rparr>"

definition sample_updated :: Position where
  "sample_updated = sample_position\<lparr>p_currentPrice := Fin 60000, p_lastUpdated := 5\<rparr>"

definition empty_world :: world where
  "empty_world =
     \<lparr>db = \<lparr>positions = [], orders = [], trade_history = []\<rparr>,
      executingOrders = {}, orderCounter = 0, processing = {}, dbFaults = [],
      balances = [], swaps = [Some ''buy''], now = 7, random = 11\<rparr>"

definition good_token :: TokenData where
  "good_token = sample_token\<lparr>tk_mc := Fin 30000, tk_ct := Fin (- 1000)\<rparr>"

text \<open>A position bought at 20000 and now at 31400, and an order to sell at a gain of 57.\<close>

definition gain_position :: Position where
  "gain_position =
     sample_position\<lparr>p_entryPrice := Fin 20000, p_currentPrice := Fin 31400,
                      p_highestPrice := Fin 31400, p_lowestPrice := Fin 20000\<rparr>"

definition gain_order :: Order where
  "gain_order = sample_order\<lparr>o_triggerValue := Fin 57\<rparr>"


definition sample_triggered :: "jsnum \<Rightarrow> Order" where
  "sample_triggered ratio =
     sample_order\<lparr>o_sellRatio := ratio, o_status := TRIGGERED, o_triggeredAt := Some 5\<rparr>"

definition sample_world3 :: "jsnum \<Rightarrow> world" where
  "sample_world3 ratio =
     sample_world2\<lparr>db := (db sample_world2)\<lparr>orders := [sample_order\<lparr>o_sellRatio := ratio\<rparr>]\<rparr>\<rparr>"

definition sample_marked :: "jsnum \<Rightarrow> world" where
  "sample_marked ratio =
     sample_world2\<lparr>db := (db sample_world2)\<lparr>orders := [sample_triggered ratio]\<rparr>\<rparr>"

definition sample_executed :: "jsnum \<Rightarrow> Order" where
  "sample_executed ratio =
     (sample_triggered ratio)\<lparr>o_status := COMPLETED, o_executedAt := Some 5,
                                o_signature := Some ''sig''\<rparr>"

definition sample_sold :: "jsnum \<Rightarrow> world" where
  "sample_sold ratio =
     sample_world\<lparr>db := \<lparr>positions = [sample_position], orders = [sample_executed ratio],
                           trade_history = [tradeRecord (sample_executed ratio) sample_position ''sig'' 5]\<rparr>,
                  balances := [], swaps := []\<rparr>"

definition sample_kept :: Position where
  "sample_kept = sample_position\<lparr>p_lastUpdated := 5\<rparr>"

definition sample_world_full :: world where
  "sample_world_full =
     sample_world\<lparr>db := (db sample_world)\<lparr>orders := [sample_order\<lparr>o_sellRatio := Fin 100\<rparr>]\<rparr>\<rparr>"

definition fault_world :: world where
  "fault_world = empty_world\<lparr>dbFaults := [False, True]\<rparr>"

definition no_swap_world :: world where
  "no_swap_world = empty_world\<lparr>swaps := [None]\<rparr>"

definition sample_buy_order :: Order where
  "sample_buy_order = sample_order\<lparr>o_type := MARKET_BUY\<rparr>"

text \<open>Two pending orders that both trigger, each selling a part.\<close>

definition sample_order_b :: Order where
  "sample_order_b =
     sample_order\<lparr>o_id := (''X'', TAKE_PROFIT, 0, 1, 4), o_sellRatio := Fin 25,
                   o_triggerType := PRICE, o_triggerValue := Fin 90000,
                   o_triggerDescription := ''target MC'', o_createdAt := 0,
                   o_description := ''Target MC''\<rparr>"

definition two_world :: world where
  "two_world =
     sample_world\<lparr>db := (db sample_world)\<lparr>orders := [sample_order, sample_order_b]\<rparr>,
                  balances := [Balance (Some 1000), Balance (Some 1000),
                               Balance (Some 500), Balance (Some 500)],
                  swaps := [Some ''sig'', Some ''sig2'']\<rparr>"

definition two_marked :: world where
  "two_marked =
     two_world\<lparr>db := (db two_world)\<lparr>orders := [sample_triggered (Fin 50), sample_order_b]\<rparr>\<rparr>"

definition two_sold :: world where
  "two_sold =
     two_world\<lparr>db := \<lparr>positions = [sample_position],
                        orders = [sample_executed (Fin 50), sample_order_b],
                        trade_history = [tradeRecord (sample_executed (Fin 50)) sample_position ''sig'' 5]\<rparr>,
               balances := [Balance (Some 500), Balance (Some 500)],
               swaps := [Some ''sig2'']\<rparr>"

text \<open>
  Three pending orders: a stop loss that does not trigger, an order selling everything,
  and one more that would trigger.
\<close>

definition sample_stop :: Order where
  "sample_stop =
     sample_order\<lparr>o_id := (''X'', STOP_LOSS, 3, 1, 5), o_type := STOP_LOSS, o_sellRatio := Fin 100,
                   o_triggerCondition := LTE, o_triggerValue := Fin (- 65),
                   o_triggerDescription := ''stop loss'', o_createdAt := 3,
                   o_description := ''Initial stop loss''\<rparr>"

definition sample_full :: Order where
  "sample_full =
     sample_order\<lparr>o_id := (''X'', TAKE_PROFIT, 2, 4, 6), o_sellRatio := Fin 100,
                   o_triggerType := PRICE, o_triggerValue := Fin 90000,
                   o_triggerDescription := ''target MC'', o_createdAt := 2,
                   o_description := ''Target MC''\<rparr>"

definition halt_world :: world where
  "halt_world =
     sample_world2\<lparr>db := (db sample_world2)\<lparr>orders := [sample_order, sample_full, sample_stop]\<rparr>\<rparr>"

definition halt_marked :: world where
  "halt_marked =
     halt_world\<lparr>db := (db halt_world)\<lparr>orders :=
       [sample_order, sample_full\<lparr>o_status := TRIGGERED, o_triggeredAt := Some 5\<rparr>, sample_stop]\<rparr>\<rparr>"

definition full_executed :: Order where
  "full_executed =
     sample_full\<lparr>o_status := COMPLETED, o_triggeredAt := Some 5, o_executedAt := Some 5,
                  o_signature := Some ''sig''\<rparr>"

definition halt_sold :: world where
  "halt_sold =
     halt_world\<lparr>db := \<lparr>positions = [sample_position],
                         orders = [sample_order, full_executed, sample_stop],
                         trade_history = [tradeRecord full_executed sample_position ''sig'' 5]\<rparr>,
                balances := [], swaps := []\<rparr>"

text \<open>A state in which the next statement of the storage layer raises.\<close>

definition stuck_world :: world where
  "stuck_world = sample_world2\<lparr>dbFaults := [True]\<rparr>"

section \<open>Rounding to a double\<close>

text \<open>The leading bit of a numeral, read off its binary digits.\<close>

lemma floor_log2_0 [simp]: "floor_log2 0 = 0"
  by (simp add: floor_log2.simps)

lemma floor_log2_1 [simp]: "floor_log2 1 = 0" "floor_log2 (Suc 0) = 0"
  by (simp_all add: floor_log2.simps)

lemma floor_log2_Bit0 [simp]: "floor_log2 (numeral (Num.Bit0 n)) = Suc (floor_log2 (numeral n))"
  by (subst floor_log2.simps) (simp add: numeral_Bit0_div_2 flip: numeral_2_eq_2)

lemma floor_log2_Bit1 [simp]: "floor_log2 (numeral (Num.Bit1 n)) = Suc (floor_log2 (numeral n))"
  by (subst floor_log2.simps) (simp add: numeral_Bit1_div_2)

lemmas dbl_defs = round_double_def binade_def pow2_def round_half_even_def

text \<open>
  \<open>binade\<close> is the binary exponent; \<open>round_double\<close> moves a number by half a unit
  in the last place at most, and leaves a number with a mantissa of 53 bits and an
  exponent in the normal range as it is.
\<close>

lemma floor_log2_bounds:
  "0 < n \<Longrightarrow> 2 ^ floor_log2 n \<le> n \<and> n < 2 ^ Suc (floor_log2 n)"
proof (induction n rule: floor_log2.induct)
  case (1 n)
  show ?case
  proof (cases "n < 2")
    case True
    with 1(2) have "n = 1" by simp
    then show ?thesis by simp
  next
    case False
    then have "0 < n div 2" by simp
    from 1(1)[OF False this]
    have "2 ^ floor_log2 (n div 2) \<le> n div 2" "n div 2 < 2 * 2 ^ floor_log2 (n div 2)" by simp_all
    moreover have "floor_log2 n = Suc (floor_log2 (n div 2))"
      using False by (subst floor_log2.simps) simp
    ultimately show ?thesis by simp arith
  qed
qed

lemma floor_log2_real:
  assumes "0 < n"
  shows "(2::real) ^ floor_log2 n \<le> real n" and "real n + 1 \<le> 2 ^ Suc (floor_log2 n)"
proof -
  from floor_log2_bounds[OF assms]
  have lo: "2 ^ floor_log2 n \<le> n" and hi: "Suc n \<le> 2 ^ Suc (floor_log2 n)" by simp_all
  have "real (2 ^ floor_log2 n) \<le> real n" using lo by (simp only: of_nat_le_iff)
  then show "(2::real) ^ floor_log2 n \<le> real n" by simp
  have "real (Suc n) \<le> real (2 ^ Suc (floor_log2 n))" using hi by (simp only: of_nat_le_iff)
  then show "real n + 1 \<le> 2 ^ Suc (floor_log2 n)" by simp
qed

lemma pow2_pos: "0 < pow2 k"
  by (simp add: pow2_def)

lemma binade_bounds:
  assumes "0 < a"
  shows "pow2 (binade a) \<le> a \<and> a < pow2 (binade a + 1)"
proof (cases "1 \<le> a")
  case True
  define n where "n = nat \<lfloor>a\<rfloor>"
  have n: "0 < n" using True by (simp add: n_def)
  have "real n = of_int \<lfloor>a\<rfloor>" using True by (simp add: n_def)
  then have na: "real n \<le> a" "a < real n + 1" by linarith+
  note lh = floor_log2_real[OF n]
  have "2 ^ floor_log2 n \<le> a" using lh na by linarith
  moreover have "a < 2 ^ Suc (floor_log2 n)" using lh na by linarith
  moreover have "binade a = int (floor_log2 n)" using True by (simp add: binade_def n_def)
  ultimately show ?thesis by (simp add: pow2_def nat_add_distrib)
next
  case False
  define m where "m = nat (\<lceil>1 / a\<rceil> - 1)"
  have y: "1 < 1 / a" using False assms by simp
  then have c: "2 \<le> \<lceil>1 / a\<rceil>" by linarith
  then have m: "0 < m" by (simp add: m_def)
  have "0 \<le> \<lceil>1 / a\<rceil> - 1" using c by linarith
  then have "int m = \<lceil>1 / a\<rceil> - 1" unfolding m_def by (rule nat_0_le)
  then have "real_of_int (int m) = of_int (\<lceil>1 / a\<rceil> - 1)" by simp
  then have "real m = of_int \<lceil>1 / a\<rceil> - 1" by simp
  then have ma: "real m < 1 / a" "1 / a \<le> real m + 1" by linarith+
  note lh = floor_log2_real[OF m]
  have b: "binade a = - int (floor_log2 m) - 1" using False by (simp add: binade_def m_def)
  have "1 / a \<le> 2 ^ Suc (floor_log2 m)" using ma lh by linarith
  then have "1 / 2 ^ Suc (floor_log2 m) \<le> a"
    using assms by (simp add: field_simps)
  moreover have "2 ^ floor_log2 m < 1 / a" using ma lh by linarith
  then have "a < 1 / 2 ^ floor_log2 m"
    using assms by (simp add: field_simps)
  moreover have "pow2 (binade a) = 1 / 2 ^ Suc (floor_log2 m)"
    unfolding b pow2_def by (simp add: nat_add_distrib)
  moreover have "pow2 (binade a + 1) = 1 / 2 ^ floor_log2 m"
    unfolding b pow2_def by simp
  ultimately show ?thesis by simp
qed

lemma round_half_even_near: "\<bar>of_int (round_half_even t) - t\<bar> \<le> 1 / 2"
  by (auto simp: round_half_even_def Let_def)

lemma round_double_near:
  assumes "round_double x = Fin y"
  shows "\<bar>y - x\<bar> \<le> pow2 (max (binade \<bar>x\<bar>) (- 1022) - 52) / 2"
proof (cases "x = 0")
  case True
  then show ?thesis using assms pow2_pos[of "max (binade \<bar>x\<bar>) (- 1022) - 52"]
    by (simp add: round_double_def)
next
  case False
  define q where "q = pow2 (max (binade \<bar>x\<bar>) (- 1022) - 52)"
  define k where "k = round_half_even (\<bar>x\<bar> / q)"
  have q: "0 < q" by (simp add: q_def pow2_pos)
  have y: "y = (if x < 0 then - (of_int k * q) else of_int k * q)"
    using assms False by (simp add: round_double_def Let_def q_def k_def split: if_splits)
  have "\<bar>of_int k - \<bar>x\<bar> / q\<bar> \<le> 1 / 2" unfolding k_def by (rule round_half_even_near)
  then have "\<bar>of_int k - \<bar>x\<bar> / q\<bar> * q \<le> 1 / 2 * q"
    using q by (intro mult_right_mono) simp_all
  moreover have "\<bar>of_int k - \<bar>x\<bar> / q\<bar> * q = \<bar>(of_int k - \<bar>x\<bar> / q) * q\<bar>"
    using q by (simp add: abs_mult)
  moreover have "(of_int k - \<bar>x\<bar> / q) * q = of_int k * q - \<bar>x\<bar>"
    using q by (simp add: field_simps)
  ultimately have "\<bar>of_int k * q - \<bar>x\<bar>\<bar> \<le> q / 2" by simp
  moreover have "\<bar>y - x\<bar> = \<bar>of_int k * q - \<bar>x\<bar>\<bar>"
  proof (cases "x < 0")
    case True
    then have "y - x = - (of_int k * q - \<bar>x\<bar>)" unfolding y by simp
    then show ?thesis by (simp only: abs_minus_cancel)
  next
    case False
    then have "y - x = of_int k * q - \<bar>x\<bar>" unfolding y by simp
    then show ?thesis by simp
  qed
  ultimately show ?thesis unfolding q_def[symmetric] by simp
qed

lemma pow2_powi: "pow2 k = 2 powi k"
  by (simp add: pow2_def power_int_def inverse_eq_divide power_divide)

lemma pow2_mono: "i \<le> j \<Longrightarrow> pow2 i \<le> pow2 j"
  unfolding pow2_powi by (rule power_int_increasing) simp_all

lemma pow2_add: "pow2 (i + j) = pow2 i * pow2 j"
  unfolding pow2_powi by (rule power_int_add) simp

lemma binade_unique:
  assumes "0 < a" and "pow2 e \<le> a" and "a < pow2 (e + 1)"
  shows "binade a = e"
proof (rule ccontr)
  assume ne: "binade a \<noteq> e"
  from binade_bounds[OF assms(1)]
  have lo: "pow2 (binade a) \<le> a" and hi: "a < pow2 (binade a + 1)" by simp_all
  show False
  proof (cases "binade a < e")
    case True
    then have "pow2 (binade a + 1) \<le> pow2 e" by (intro pow2_mono) simp
    then show False using hi assms(2) by linarith
  next
    case False
    with ne have "e + 1 \<le> binade a" by simp
    then have "pow2 (e + 1) \<le> pow2 (binade a)" by (rule pow2_mono)
    then show False using lo assms(3) by linarith
  qed
qed

lemma round_half_even_int: "round_half_even (of_int k) = k"
  by (simp add: round_half_even_def)

lemma round_double_exact:
  assumes k: "2 ^ 52 \<le> k" "k < 2 ^ 53" and e: "- 1022 \<le> e" "e \<le> 1023"
  shows "round_double (of_int k * pow2 (e - 52)) = Fin (of_int k * pow2 (e - 52))"
proof -
  define q where "q = pow2 (e - 52)"
  define x where "x = of_int k * q"
  have q: "0 < q" by (simp add: q_def pow2_pos)
  have kr: "(2::real) ^ 52 \<le> of_int k" "real_of_int k < 2 ^ 53"
    using k by (metis of_int_le_iff of_int_numeral of_int_power, metis of_int_less_iff of_int_numeral of_int_power)
  have x: "0 < x" using kr q by (simp add: x_def)
  have c52: "pow2 52 = 2 ^ 52" "pow2 53 = 2 ^ 53" by (simp_all add: pow2_def)
  have "pow2 (52 + (e - 52)) = pow2 52 * q" "pow2 (53 + (e - 52)) = pow2 53 * q"
    unfolding q_def by (rule pow2_add)+
  then have p52: "pow2 e = 2 ^ 52 * q" "pow2 (e + 1) = 2 ^ 53 * q"
    unfolding c52 by (simp_all add: add.commute)
  have "pow2 e \<le> x" unfolding p52 x_def using kr q by simp
  moreover have "x < pow2 (e + 1)" unfolding p52 x_def using kr q by simp
  ultimately have b: "binade x = e" using x by (intro binade_unique)
  have m: "max (binade \<bar>x\<bar>) (- 1022) = e" using b x e by simp
  have d: "\<bar>x\<bar> / q = of_int k" using q x by (simp add: x_def)
  have "x < pow2 1024"
  proof -
    have "pow2 (e + 1) \<le> pow2 1024" using e by (intro pow2_mono) simp
    then show ?thesis using \<open>x < pow2 (e + 1)\<close> by linarith
  qed
  then show ?thesis
    unfolding x_def[symmetric] q_def[symmetric]
    using x m d by (simp add: round_double_def Let_def q_def[symmetric] round_half_even_int x_def[symmetric])
qed

section \<open>Calls preserve properties of the database\<close>

lemma presD: "pres P m \<Longrightarrow> P (db w) \<Longrightarrow> P (db (snd (m w)))"
  by (simp add: pres_def)

lemma presD2: "pres P m \<Longrightarrow> P (db w) \<Longrightarrow> m w = (r, w') \<Longrightarrow> P (db w')"
  by (auto simp: pres_def dest!: spec[of _ w])

lemma pres_ret [intro!, simp]: "pres P (ret x)"
  by (simp add: pres_def ret_def)

lemma pres_bnd [intro!]: "pres P m \<Longrightarrow> (\<And>x. pres P (f x)) \<Longrightarrow> pres P (bnd m f)"
  unfolding pres_def bnd_def
  apply (intro allI impI)
  subgoal for w
    apply (cases "m w")
    subgoal for r w'
      apply (cases r)
       apply (auto dest!: spec[of _ w])
      done
    done
  done

lemma pres_try_catch [intro!]: "pres P m \<Longrightarrow> (\<And>e. pres P (h e)) \<Longrightarrow> pres P (try_catch m h)"
  unfolding pres_def try_catch_def
  apply (intro allI impI)
  subgoal for w
    apply (cases "m w")
    subgoal for r w'
      apply (cases r)
       apply (auto dest!: spec[of _ w])
      done
    done
  done

lemma pres_if [intro!]: "pres P m \<Longrightarrow> pres P n \<Longrightarrow> pres P (if b then m else n)"
  by simp

lemma pres_run:
  assumes "\<And>s n s'. P s \<Longrightarrow> stmt s = Inr (n, s') \<Longrightarrow> P s'"
  shows "pres P (run stmt)"
  unfolding pres_def run_def
  by (auto simp: Let_def split: sum.splits dest: assms)

lemma pres_Date_now [intro!, simp]: "pres P Date_now"
  by (simp add: pres_def Date_now_def)

lemma pres_getTokenBalance [intro!, simp]: "pres P (getTokenBalance a)"
  by (simp add: pres_def getTokenBalance_def split: list.splits balance_answer.splits)

lemma pres_executeJupiterSwap [intro!, simp]: "pres P (executeJupiterSwap ps)"
  by (simp add: pres_def executeJupiterSwap_def split: list.splits)

lemma pres_generateOrderId [intro!, simp]: "pres P (generateOrderId a t)"
  by (simp add: pres_def generateOrderId_def Let_def)

lemma pres_BigInt [intro!, simp]: "pres P (BigInt x)"
  by (simp add: pres_def BigInt_def ret_def split: jsnum.splits)

lemma pres_executeBuy [intro!, simp]: "pres P (executeBuy cfg p)"
  unfolding executeBuy_def by (intro pres_try_catch pres_if pres_bnd) simp_all

lemma pres_executeSell [intro!, simp]: "pres P (executeSell cfg a sy g r d)"
  unfolding executeSell_def
  by (intro pres_try_catch pres_if pres_bnd) (auto split: option.splits)

lemma pres_executeBuyOrder [intro!, simp]: "pres P (executeBuyOrder cfg order p)"
  unfolding executeBuyOrder_def by (intro pres_try_catch) simp_all

lemma pres_executeSellOrder [intro!, simp]: "pres P (executeSellOrder cfg order p)"
  unfolding executeSellOrder_def by (intro pres_try_catch pres_bnd pres_if) simp_all


lemma pres_recordTradeHistory:
  assumes "\<And>t. pres P (insertTradeHistory t)"
  shows "pres P (recordTradeHistory order p result)"
  unfolding recordTradeHistory_def
  by (auto intro!: pres_bnd assms split: option.splits)

lemma executeOrder_try_same:
  "o_id (fst (snd (executeOrder_try cfg order p w))) = o_id order \<and>
   o_sellRatio (fst (snd (executeOrder_try cfg order p w))) = o_sellRatio order"
  by (simp add: executeOrder_try_def Let_def split: prod.splits outcome.splits)

lemma executeOrder_catch_same:
  "o_id (fst (snd (executeOrder_catch msg order w))) = o_id order \<and>
   o_sellRatio (fst (snd (executeOrder_catch msg order w))) = o_sellRatio order"
  by (simp add: executeOrder_catch_def Let_def split: prod.splits outcome.splits)

lemma pres_executeOrder_try:
  assumes u: "\<And>o'. o_id o' = o_id order \<Longrightarrow> pres P (updateOrder o')"
    and t: "\<And>t. pres P (insertTradeHistory t)"
    and P: "P (db w)"
  shows "P (db (snd (snd (executeOrder_try cfg order p w))))"
proof -
  note r = pres_recordTradeHistory[of P, OF t]
  let ?inner = "if o_type order = MARKET_BUY then executeBuyOrder cfg order p
            else executeSellOrder cfg order p"
  have pi: "pres P ?inner" by simp
  obtain x w1 where i: "?inner w = (x, w1)" by (cases "?inner w")
  have P1: "P (db w1)" using presD2[OF pi P i] .
  show ?thesis
  proof (cases x)
    case (Throws e)
    then show ?thesis using i P1 by (simp add: executeOrder_try_def)
  next
    case (Returns result)
    show ?thesis
    proof (cases "success result")
      case True
      let ?o1 = "order\<lparr>o_status := COMPLETED, o_executedAt := Some (now w1),
                   o_signature := signature result\<rparr>"
      have u1: "pres P (updateOrder ?o1)" by (rule u) simp
      obtain y w2 where rt: "recordTradeHistory ?o1 p result w1 = (y, w2)"
        by (cases "recordTradeHistory ?o1 p result w1")
      have P2: "P (db w2)" using presD2[OF r P1 rt] .
      obtain z w3 where up: "updateOrder ?o1 w2 = (z, w3)" by (cases "updateOrder ?o1 w2")
      have P3: "P (db w3)" using presD2[OF u1 P2 up] .
      show ?thesis using i Returns True rt up P2 P3
        by (cases y; cases z) (simp_all add: executeOrder_try_def Let_def)
    next
      case False
      let ?o1 = "order\<lparr>o_status := FAILED, o_error := error result,
                   o_retryCount := Suc (o_retryCount order)\<rparr>"
      have u1: "pres P (updateOrder ?o1)" by (rule u) simp
      obtain z w2 where up: "updateOrder ?o1 w1 = (z, w2)" by (cases "updateOrder ?o1 w1")
      have P2: "P (db w2)" using presD2[OF u1 P1 up] .
      show ?thesis using i Returns False up P2
        by (cases z) (simp_all add: executeOrder_try_def Let_def)
    qed
  qed
qed

lemma pres_executeOrder_catch:
  assumes u: "\<And>o'. o_id o' = o_id order \<Longrightarrow> pres P (updateOrder o')" and P: "P (db w)"
  shows "P (db (snd (snd (executeOrder_catch msg order w))))"
proof -
  let ?o1 = "order\<lparr>o_status := FAILED, o_error := Some msg,
                   o_retryCount := Suc (o_retryCount order)\<rparr>"
  have u1: "pres P (updateOrder ?o1)" by (rule u) simp
  obtain z w2 where up: "updateOrder ?o1 w = (z, w2)" by (cases "updateOrder ?o1 w")
  have P2: "P (db w2)" using presD2[OF u1 P up] .
  show ?thesis using up P2
    by (cases z) (simp_all add: executeOrder_catch_def Let_def)
qed

lemma pres_executeOrder_id:
  assumes u: "\<And>o'. o_id o' = o_id order \<Longrightarrow> pres P (updateOrder o')"
    and t: "\<And>t. pres P (insertTradeHistory t)"
  shows "pres P (executeOrder cfg order p)"
  unfolding pres_def
proof (intro allI impI)
  fix w :: world
  assume P: "P (db w)"
  let ?w1 = "w\<lparr>executingOrders := insert (o_id order) (executingOrders w)\<rparr>"
  let ?o1 = "order\<lparr>o_status := EXECUTING\<rparr>"
  have P1: "P (db ?w1)" using P by simp
  have u1: "pres P (updateOrder o')" if "o_id o' = o_id ?o1" for o'
    using that by (intro u) simp
  show "P (db (snd (executeOrder cfg order p w)))"
  proof (cases "o_id order \<in> executingOrders w")
    case True
    then show ?thesis using P by (simp add: executeOrder_def)
  next
    case False
    obtain r w2 where upd: "updateOrder ?o1 ?w1 = (r, w2)"
      by (cases "updateOrder ?o1 ?w1")
    have P2: "P (db w2)" using presD2[OF u1 P1 upd] by simp
    show ?thesis
    proof (cases r)
      case (Throws e)
      then show ?thesis using False upd P2 by (simp add: executeOrder_def Let_def)
    next
      case (Returns n)
      obtain r3 o3 w3 where tr: "executeOrder_try cfg ?o1 p w2 = (r3, o3, w3)"
        by (cases "executeOrder_try cfg ?o1 p w2") auto
      have P3: "P (db w3)" using pres_executeOrder_try[of ?o1 P, OF u1 t P2, of cfg p]
        by (simp add: tr)
      have id3: "o_id o3 = o_id order" using executeOrder_try_same[of cfg ?o1 p w2] tr by simp
      show ?thesis
      proof (cases r3)
        case (Returns res)
        then show ?thesis using False upd \<open>r = Returns n\<close> tr P3
          by (simp add: executeOrder_def Let_def)
      next
        case (Throws msg)
        obtain r4 o4 w4 where ca: "executeOrder_catch msg o3 w3 = (r4, o4, w4)"
          by (cases "executeOrder_catch msg o3 w3") auto
        have u3: "pres P (updateOrder o')" if "o_id o' = o_id o3" for o'
          using that by (intro u) (simp add: id3)
        have "P (db (snd (snd (executeOrder_catch msg o3 w3))))"
          using u3 P3 by (rule pres_executeOrder_catch[where P = P])
        then have P4: "P (db w4)" by (simp add: ca)
        show ?thesis using False upd \<open>r = Returns n\<close> tr Throws ca P4
          by (cases r4) (simp_all add: executeOrder_def Let_def)
      qed
    qed
  qed
qed

lemma pres_executeOrder:
  assumes u: "\<And>o'. pres P (updateOrder o')" and t: "\<And>t. pres P (insertTradeHistory t)"
  shows "pres P (executeOrder cfg order p)"
  by (rule pres_executeOrder_id) (rule u t)+

lemma executeOrder_same:
  assumes "executeOrder cfg order p w = (Returns (result, order'), w')"
  shows "o_id order' = o_id order \<and> o_sellRatio order' = o_sellRatio order"
proof (cases "o_id order \<in> executingOrders w")
  case True
  then show ?thesis using assms by (simp add: executeOrder_def)
next
  case False
  let ?w1 = "w\<lparr>executingOrders := insert (o_id order) (executingOrders w)\<rparr>"
  let ?o1 = "order\<lparr>o_status := EXECUTING\<rparr>"
  obtain r w2 where upd: "updateOrder ?o1 ?w1 = (r, w2)" by (cases "updateOrder ?o1 ?w1")
  then obtain n where r: "r = Returns n"
    using assms False by (cases r) (auto simp: executeOrder_def Let_def)
  obtain r3 o3 w3 where tr: "executeOrder_try cfg ?o1 p w2 = (r3, o3, w3)"
    by (cases "executeOrder_try cfg ?o1 p w2") auto
  have s3: "o_id o3 = o_id order \<and> o_sellRatio o3 = o_sellRatio order"
    using executeOrder_try_same[of cfg ?o1 p w2] tr by simp
  show ?thesis
  proof (cases r3)
    case (Returns res)
    then show ?thesis using assms False upd r tr s3 by (auto simp: executeOrder_def Let_def)
  next
    case (Throws msg)
    obtain r4 o4 w4 where ca: "executeOrder_catch msg o3 w3 = (r4, o4, w4)"
      by (cases "executeOrder_catch msg o3 w3") auto
    have s4: "o_id o4 = o_id o3 \<and> o_sellRatio o4 = o_sellRatio o3"
      using executeOrder_catch_same[of msg o3 w3] ca by simp
    show ?thesis using assms False upd r tr Throws ca s3 s4
      by (cases r4) (auto simp: executeOrder_def Let_def)
  qed
qed

lemma pres_checkLoop_id:
  assumes u: "\<And>od o'. od \<in> set os \<Longrightarrow> shouldTriggerOrder od p \<Longrightarrow> o_id o' = o_id od \<Longrightarrow>
                pres P (updateOrder o')"
    and t: "\<And>t. pres P (insertTradeHistory t)"
  shows "P (db w) \<Longrightarrow> P (db (snd (checkLoop cfg p os w)))"
  using u
proof (induction os arbitrary: w)
  case Nil
  then show ?case by simp
next
  case (Cons order rest)
  have IH: "P (db w') \<Longrightarrow> P (db (snd (checkLoop cfg p rest w')))" for w'
    by (rule Cons.IH) (auto intro: Cons.prems(2))
  show ?case
  proof (cases "shouldTriggerOrder order p")
    case False
    then show ?thesis using IH[OF Cons.prems(1)] by simp
  next
    case True
    let ?o1 = "order\<lparr>o_status := TRIGGERED, o_triggeredAt := Some (now w)\<rparr>"
    have u1: "pres P (updateOrder o')" if "o_id o' = o_id ?o1" for o'
      using that True by (intro Cons.prems(2)[of order]) simp_all
    obtain r w1 where upd: "updateOrder ?o1 w = (r, w1)" by (cases "updateOrder ?o1 w")
    have P1: "P (db w1)" using presD2[OF u1 Cons.prems(1) upd] by simp
    show ?thesis
    proof (cases r)
      case (Throws e)
      then show ?thesis using True upd P1 by (simp add: Let_def)
    next
      case (Returns n)
      obtain r2 w2 where ex: "executeOrder cfg ?o1 p w1 = (r2, w2)"
        by (cases "executeOrder cfg ?o1 p w1")
      have P2: "P (db w2)"
        using presD2[OF pres_executeOrder_id[of ?o1 P, OF u1 t] P1 ex] by simp
      show ?thesis
      proof (cases r2)
        case (Throws e)
        then show ?thesis using True upd Returns ex P2 by (simp add: Let_def)
      next
        case (Returns x)
        obtain result order2 where x: "x = (result, order2)" by (cases x)
        show ?thesis using True upd \<open>r = Returns n\<close> ex Returns x P2 IH[OF P2]
          by (simp add: Let_def)
      qed
    qed
  qed
qed

lemma pres_checkLoop:
  assumes u: "\<And>o'. pres P (updateOrder o')" and t: "\<And>t. pres P (insertTradeHistory t)"
  shows "P (db w) \<Longrightarrow> P (db (snd (checkLoop cfg p os w)))"
  by (rule pres_checkLoop_id) (rule u t | assumption)+

lemma pres_checkAndExecuteOrders:
  assumes u: "\<And>o'. pres P (updateOrder o')" and t: "\<And>t. pres P (insertTradeHistory t)"
  shows "pres P (checkAndExecuteOrders cfg p)"
  unfolding pres_def checkAndExecuteOrders_def
  using pres_checkLoop[of P, OF u t] by blast

lemma pres_createOrder:
  assumes "\<And>o'. pres P (insertOrder o')"
  shows "pres P (createOrder params)"
  unfolding createOrder_def
  by (auto intro!: pres_bnd assms simp: Let_def)

lemma pres_createAndExecuteImmediateOrder:
  assumes i: "\<And>o'. pres P (insertOrder o')"
    and u: "\<And>o'. pres P (updateOrder o')" and t: "\<And>t. pres P (insertTradeHistory t)"
  shows "pres P (createAndExecuteImmediateOrder cfg params p)"
  unfolding createAndExecuteImmediateOrder_def
  by (auto intro!: pres_bnd pres_createOrder pres_executeOrder i u t)

lemma pres_createDefaultOrders:
  assumes i: "\<And>o'. pres P (insertOrder o')"
  shows "pres P (createDefaultOrders cfg p)"
  unfolding createDefaultOrders_def
  by (intro pres_bnd pres_if pres_createOrder i pres_ret)

lemma pres_closePosition:
  assumes c: "\<And>pid. pres P (cancelPositionOrders pid)" and d: "\<And>pid. pres P (deletePosition pid)"
  shows "pres P (closePosition a)"
  unfolding pres_def closePosition_def
  by (auto split: option.splits intro!: presD[OF pres_bnd] c d)


lemma pres_updatePosition:
  assumes up: "\<And>p. pres P (db_updatePosition p)"
    and u: "\<And>o'. pres P (updateOrder o')" and t: "\<And>t. pres P (insertTradeHistory t)"
    and c: "\<And>pid. pres P (cancelPositionOrders pid)" and d: "\<And>pid. pres P (deletePosition pid)"
  shows "pres P (updatePosition cfg a price lfg)"
  unfolding pres_def updatePosition_def
  by (auto split: option.splits simp: Let_def
        intro!: presD[OF pres_bnd] up pres_checkAndExecuteOrders u t pres_closePosition c d)

lemma pres_closePositionManually:
  assumes i: "\<And>o'. pres P (insertOrder o')"
    and u: "\<And>o'. pres P (updateOrder o')" and t: "\<And>t. pres P (insertTradeHistory t)"
    and c: "\<And>pid. pres P (cancelPositionOrders pid)" and d: "\<And>pid. pres P (deletePosition pid)"
  shows "pres P (closePositionManually cfg a)"
  unfolding pres_def closePositionManually_def
  by (auto split: option.splits simp: Let_def
        intro!: presD[OF pres_bnd] pres_createAndExecuteImmediateOrder i u t pres_closePosition c d)

lemma pres_closeEach:
  assumes "\<And>a. pres P (closePositionManually cfg a)"
  shows "P (db w) \<Longrightarrow> P (db (snd (closeEach cfg ps w)))"
proof (induction ps arbitrary: w)
  case Nil
  then show ?case by simp
next
  case (Cons p ps)
  then show ?case
    by (auto split: prod.splits outcome.splits intro!: Cons.IH dest: presD2[OF assms])
qed

lemma pres_emergencyCloseAll:
  assumes "\<And>a. pres P (closePositionManually cfg a)"
  shows "pres P (emergencyCloseAll cfg)"
  unfolding pres_def emergencyCloseAll_def using pres_closeEach[of P, OF assms] by blast

lemma pres_processToken_try:
  assumes c: "\<And>sol. pres P (createPosition cfg token sol)"
    and u: "\<And>a price lfg. pres P (updatePosition cfg a price lfg)"
  shows "pres P (processToken_try cfg token)"
  unfolding pres_def processToken_try_def
  by (auto split: option.splits intro!: presD[OF pres_bnd] c u)

lemma pres_processToken:
  assumes c: "\<And>sol. pres P (createPosition cfg token sol)"
    and u: "\<And>a price lfg. pres P (updatePosition cfg a price lfg)"
  shows "pres P (processToken cfg token)"
  unfolding pres_def
proof (intro allI impI)
  fix w :: world
  assume P: "P (db w)"
  let ?w1 = "w\<lparr>processing := insert (tk_a token) (processing w)\<rparr>"
  have "pres P (try_catch (processToken_try cfg token) (\<lambda>msg. ret ()))"
    by (intro pres_try_catch pres_processToken_try c u pres_ret)
  from presD[OF this, of ?w1] P
  have "P (db (snd (try_catch (processToken_try cfg token) (\<lambda>msg. ret ()) ?w1)))" by simp
  then show "P (db (snd (processToken cfg token w)))"
    using P by (auto simp: processToken_def Let_def split: prod.splits)
qed

subsection \<open>The SQL statements and the positions table\<close>

lemma pos_insertOrder: "pres (\<lambda>s. Q (positions s)) (insertOrder x)"
  unfolding insertOrder_def by (rule pres_run) (auto simp: sql_insertOrder_def split: if_splits)

lemma pos_updateOrder: "pres (\<lambda>s. Q (positions s)) (updateOrder x)"
  unfolding updateOrder_def by (rule pres_run) (auto simp: sql_updateOrder_def)

lemma pos_cancelPositionOrders: "pres (\<lambda>s. Q (positions s)) (cancelPositionOrders x)"
  unfolding cancelPositionOrders_def by (rule pres_run) (auto simp: sql_cancel_def)

lemma pos_cancelOrder: "pres (\<lambda>s. Q (positions s)) (cancelOrder x)"
  unfolding cancelOrder_def by (intro pres_bnd pres_run pres_ret) (auto simp: sql_cancel_def)

lemma pos_insertTradeHistory: "pres (\<lambda>s. Q (positions s)) (insertTradeHistory x)"
  unfolding insertTradeHistory_def
  by (rule pres_run) (auto simp: sql_insertTradeHistory_def split: if_splits)

lemma all_active: "filter (\<lambda>row. p_status row = ACTIVE) ps = ps"
  by (induction ps) (auto intro: PositionStatus.exhaust)

lemma getPositionCount_length: "getPositionCount s = length (positions s)"
  by (simp add: getPositionCount_def all_active)

lemma p_address_set_price_columns [simp]: "p_address (set_price_columns x row) = p_address row"
  by (simp add: set_price_columns_def)

lemma inv_deletePosition: "pres (risk_inv cfg) (deletePosition x)"
  unfolding deletePosition_def
proof (rule pres_run)
  fix s n s' assume a: "risk_inv cfg s" "sql_deletePosition x s = Inr (n, s')"
  have p: "positions s' = filter (\<lambda>row. p_id row \<noteq> x) (positions s)"
    using a(2) by (auto simp: sql_deletePosition_def Let_def)
  have "length (positions s') \<le> length (positions s)"
    unfolding p by simp
  then have "int (length (positions s')) \<le> MAX_POSITIONS cfg"
    using a(1) by (simp add: risk_inv_def getPositionCount_length)
  moreover have "distinct (map p_address (positions s'))"
    using a(1) unfolding p by (simp add: risk_inv_def distinct_map_filter)
  ultimately show "risk_inv cfg s'"
    by (simp add: risk_inv_def getPositionCount_length)
qed

lemma inv_db_updatePosition: "pres (risk_inv cfg) (db_updatePosition x)"
  unfolding db_updatePosition_def
proof (rule pres_run)
  fix s n s' assume a: "risk_inv cfg s" "sql_updatePosition x s = Inr (n, s')"
  have 1: "map p_address (map (\<lambda>row. if p_id row = p_id x then set_price_columns x row else row) ps)
        = map p_address ps" for ps
    by (induction ps) auto
  from a show "risk_inv cfg s'"
    using 1[of "positions s"]
    by (auto simp: risk_inv_def sql_updatePosition_def getPositionCount_length simp del: map_map)
qed


lemma inv_pos_only:
  assumes "pres (\<lambda>s. positions s = ps) m" "positions (db w) = ps"
  shows "positions (db (snd (m w))) = positions (db w)"
  using presD[OF assms(1), of w] assms(2) by simp

lemma risk_inv_positions: "positions s' = positions s \<Longrightarrow> risk_inv cfg s' = risk_inv cfg s"
  by (simp add: risk_inv_def getPositionCount_def)

lemma inv_of_pos:
  assumes "\<And>Q. pres (\<lambda>s. Q (positions s)) m"
  shows "pres (risk_inv cfg) m"
proof -
  have "risk_inv cfg = (\<lambda>s. (\<lambda>ps. distinct (map p_address ps) \<and>
          int (length (filter (\<lambda>row. p_status row = ACTIVE) ps)) \<le> MAX_POSITIONS cfg) (positions s))"
    by (auto simp: risk_inv_def getPositionCount_def fun_eq_iff)
  then show ?thesis using assms by simp
qed

lemma inv_insertOrder: "pres (risk_inv cfg) (insertOrder x)"
  by (rule inv_of_pos) (rule pos_insertOrder)
lemma inv_updateOrder: "pres (risk_inv cfg) (updateOrder x)"
  by (rule inv_of_pos) (rule pos_updateOrder)
lemma inv_cancelPositionOrders: "pres (risk_inv cfg) (cancelPositionOrders x)"
  by (rule inv_of_pos) (rule pos_cancelPositionOrders)
lemma inv_cancelOrder: "pres (risk_inv cfg) (cancelOrder x)"
  by (rule inv_of_pos) (rule pos_cancelOrder)
lemma inv_insertTradeHistory: "pres (risk_inv cfg) (insertTradeHistory x)"
  by (rule inv_of_pos) (rule pos_insertTradeHistory)

lemmas inv_stmts = inv_insertOrder inv_updateOrder inv_cancelPositionOrders inv_cancelOrder
  inv_insertTradeHistory inv_deletePosition inv_db_updatePosition

lemma createPosition_guard_count:
  "int (getPositionCount (db w)) \<ge> MAX_POSITIONS cfg \<Longrightarrow>
   createPosition cfg token solInvested w = (Returns None, w)"
  by (simp add: createPosition_def Let_def)

lemma createPosition_guard_exists:
  "getPosition (db w) (tk_a token) = Some existing \<Longrightarrow>
   createPosition cfg token solInvested w = (Returns None, w)"
  by (simp add: createPosition_def Let_def)

lemma getPosition_None_iff: "getPosition s a = None \<longleftrightarrow> a \<notin> set (map p_address (positions s))"
  by (auto simp: getPosition_def find_None_iff)

lemma try_catch_bnd:
  "try_catch (bnd m f) h w =
     (case m w of (Throws e, w1) \<Rightarrow> h e w1 | (Returns x, w1) \<Rightarrow> try_catch (f x) h w1)"
  by (simp add: try_catch_def bnd_def split: prod.splits outcome.splits)

lemma insertPosition_cases:
  assumes "insertPosition p w = (r, w1)"
  shows "db w1 = db w \<or> (db w1 = (db w)\<lparr>positions := positions (db w) @ [p]\<rparr>)"
  using assms
  by (auto simp: insertPosition_def run_def sql_insertPosition_def Let_def split: if_splits)


lemma inv_createPosition: "pres (risk_inv cfg) (createPosition cfg token solInvested)"
  unfolding pres_def
proof (intro allI impI)
  fix w :: world
  assume I: "risk_inv cfg (db w)"
  show "risk_inv cfg (db (snd (createPosition cfg token solInvested w)))"
  proof (cases "int (getPositionCount (db w)) \<ge> MAX_POSITIONS cfg \<or> getPosition (db w) (tk_a token) \<noteq> None")
    case True
    then show ?thesis using I by (auto simp: createPosition_def Let_def)
  next
    case False
    define position where "position = newPosition token solInvested (now w)"
    define h where "h = (\<lambda>msg :: string. (ret None :: Position option io))"
    have cp: "createPosition cfg token solInvested w = try_catch (createPosition_try cfg position) h w"
      using False by (simp add: createPosition_def Let_def position_def h_def)
    obtain r w1 where ins: "insertPosition position w = (r, w1)"
      by (cases "insertPosition position w")
    have I1: "risk_inv cfg (db w1)"
    proof -
      have "tk_a token \<notin> set (map p_address (positions (db w)))"
        using False by (simp add: getPosition_None_iff)
      moreover have "int (length (positions (db w))) < MAX_POSITIONS cfg"
        using False by (simp add: getPositionCount_length)
      moreover have "p_address position = tk_a token"
        by (simp add: position_def newPosition_def Let_def)
      ultimately show ?thesis using insertPosition_cases[OF ins] I
        by (auto simp: risk_inv_def getPositionCount_length)
    qed
    have pr: "pres (risk_inv cfg) (try_catch (
         bnd (createDefaultOrders cfg position) (\<lambda>_.
                         bnd (executeBuy cfg position) (\<lambda>buyResult.
                           if \<not> success buyResult
                           then bnd (deletePosition (p_id position)) (\<lambda>_. ret None)
                           else ret (Some position)))) h)"
      unfolding h_def
      by (intro pres_try_catch pres_bnd pres_if pres_createDefaultOrders inv_stmts pres_ret pres_executeBuy)
    show ?thesis
    proof (cases r)
      case (Returns x)
      then show ?thesis using presD[OF pr I1] ins by (simp add: cp createPosition_try_def try_catch_bnd)
    next
      case (Throws e)
      then show ?thesis using I1 ins by (simp add: cp createPosition_try_def try_catch_bnd h_def ret_def)
    qed
  qed
qed


lemma inv_perform: "risk_inv cfg (db w) \<Longrightarrow> risk_inv cfg (db (perform cfg c w))"
proof (cases c)
  case (CreatePosition t sol)
  assume "risk_inv cfg (db w)"
  then show ?thesis using presD[OF inv_createPosition] CreatePosition by simp
next
  case (UpdatePosition a pr l)
  assume "risk_inv cfg (db w)"
  then show ?thesis using presD[OF pres_updatePosition[of "risk_inv cfg", OF inv_stmts(7,2,5,3,6)]] UpdatePosition
    by simp
next
  case (ClosePosition a)
  assume "risk_inv cfg (db w)"
  then show ?thesis using presD[OF pres_closePosition[of "risk_inv cfg", OF inv_stmts(3,6)]] ClosePosition
    by simp
next
  case (ClosePositionManually a)
  assume "risk_inv cfg (db w)"
  then show ?thesis
    using presD[OF pres_closePositionManually[of "risk_inv cfg", OF inv_stmts(1,2,5,3,6)]] ClosePositionManually
    by simp
next
  case EmergencyCloseAll
  assume "risk_inv cfg (db w)"
  then show ?thesis
    using presD[OF pres_emergencyCloseAll[of "risk_inv cfg",
          OF pres_closePositionManually[of "risk_inv cfg", OF inv_stmts(1,2,5,3,6)]]] EmergencyCloseAll
    by simp
next
  case (ProcessToken t)
  assume "risk_inv cfg (db w)"
  then show ?thesis
    using presD[OF pres_processToken[of "risk_inv cfg", OF inv_createPosition
          pres_updatePosition[of "risk_inv cfg", OF inv_stmts(7,2,5,3,6)]]] ProcessToken
    by simp
next
  case (AddCustomOrder a ps)
  assume I: "risk_inv cfg (db w)"
  have "pres (risk_inv cfg) (addCustomOrder a ps)"
    unfolding pres_def addCustomOrder_def
    by (auto split: option.splits intro!: presD[OF pres_try_catch] pres_bnd pres_createOrder inv_stmts)
  from presD[OF this I] show ?thesis using AddCustomOrder by simp
next
  case (RemoveOrder a oid)
  assume I: "risk_inv cfg (db w)"
  have "pres (risk_inv cfg) (removeOrder a oid)"
    unfolding pres_def removeOrder_def
    by (auto split: option.splits intro!: presD[OF inv_cancelOrder])
  from presD[OF this I] show ?thesis using RemoveOrder by simp
next
  case (CancelOrder oid)
  assume "risk_inv cfg (db w)"
  then show ?thesis using presD[OF inv_cancelOrder] CancelOrder by simp
next
  case (CancelPositionOrders pid)
  assume "risk_inv cfg (db w)"
  then show ?thesis using presD[OF inv_cancelPositionOrders] CancelPositionOrders by simp
next
  case (Outside f b sg t rn)
  assume "risk_inv cfg (db w)"
  then show ?thesis using Outside by simp
qed

lemma inv_performAll: "risk_inv cfg (db w) \<Longrightarrow> risk_inv cfg (db (performAll cfg cs w))"
proof (induction cs arbitrary: w)
  case Nil
  then show ?case by simp
next
  case (Cons c cs)
  have "risk_inv cfg (db (perform cfg c w))" by (rule inv_perform) (rule Cons.prems)
  then have "risk_inv cfg (db (performAll cfg cs (perform cfg c w)))" by (rule Cons.IH)
  then show ?case by simp
qed

lemma distinct_filter_le1: "distinct (map f xs) \<Longrightarrow> length (filter (\<lambda>x. f x = a \<and> P x) xs) \<le> Suc 0"
proof (induction xs)
  case Nil
  then show ?case by simp
next
  case (Cons x xs)
  show ?case
  proof (cases "f x = a")
    case True
    have "\<forall>y\<in>set xs. f y \<noteq> a" using Cons.prems True by (auto simp: image_iff)
    then have "filter (\<lambda>x. f x = a \<and> P x) xs = []" by (simp add: filter_empty_conv)
    then show ?thesis by simp
  next
    case False
    then show ?thesis using Cons by simp
  qed
qed

text \<open>
  C4: \<open>createPosition\<close> returns \<open>null\<close> and leaves the whole state as it was when the
  active-position count has reached the configured maximum, and when a position
  already exists for the instrument.  Consequently, along every run of calls that
  starts without positions, at most one active position exists per address and the
  active-position count stays at or below the (non-negative) maximum.
\<close>

theorem C4_createPosition_guards:
  "(int (getPositionCount (db w)) \<ge> MAX_POSITIONS cfg \<longrightarrow>
      createPosition cfg token solInvested w = (Returns None, w))
   \<and> (getPosition (db w) (tk_a token) \<noteq> None \<longrightarrow>
        createPosition cfg token solInvested w = (Returns None, w))
   \<and> (positions (db w0) = [] \<and> 0 \<le> MAX_POSITIONS cfg \<longrightarrow>
        length (filter (\<lambda>row. p_address row = address \<and> p_status row = ACTIVE)
                  (positions (db (performAll cfg calls w0)))) \<le> 1
        \<and> int (getPositionCount (db (performAll cfg calls w0))) \<le> MAX_POSITIONS cfg)"
proof (intro conjI impI)
  assume "int (getPositionCount (db w)) \<ge> MAX_POSITIONS cfg"
  then show "createPosition cfg token solInvested w = (Returns None, w)"
    by (rule createPosition_guard_count)
next
  assume "getPosition (db w) (tk_a token) \<noteq> None"
  then show "createPosition cfg token solInvested w = (Returns None, w)"
    by (auto intro: createPosition_guard_exists)
next
  assume a: "positions (db w0) = [] \<and> 0 \<le> MAX_POSITIONS cfg"
  then have "risk_inv cfg (db w0)" by (simp add: risk_inv_def getPositionCount_def)
  then have I: "risk_inv cfg (db (performAll cfg calls w0))" by (rule inv_performAll)
  then show "int (getPositionCount (db (performAll cfg calls w0))) \<le> MAX_POSITIONS cfg"
    by (simp add: risk_inv_def)
  from I have "distinct (map p_address (positions (db (performAll cfg calls w0))))"
    by (simp add: risk_inv_def)
  from distinct_filter_le1[OF this]
  show "length (filter (\<lambda>row. p_address row = address \<and> p_status row = ACTIVE)
                  (positions (db (performAll cfg calls w0)))) \<le> 1"
    by simp
qed



subsection \<open>Entry fields\<close>

lemma entry_fields_set_price_columns [simp]:
  "entry_fields (set_price_columns x row) = entry_fields row"
  by (simp add: entry_fields_def set_price_columns_def)

lemma ew_of_pos:
  assumes "\<And>Q. pres (\<lambda>s. Q (positions s)) m"
  shows "pres (entry_within c) m"
  unfolding entry_within_def using assms[of "\<lambda>ps. set (map entry_fields ps) \<subseteq> set (map entry_fields c)"] .

lemma ew_db_updatePosition: "pres (entry_within c) (db_updatePosition x)"
  unfolding db_updatePosition_def
proof (rule pres_run)
  fix s n s' assume a: "entry_within c s" "sql_updatePosition x s = Inr (n, s')"
  have 1: "map entry_fields (map (\<lambda>row. if p_id row = p_id x then set_price_columns x row else row) ps)
        = map entry_fields ps" for ps
    by (induction ps) auto
  have "positions s' = map (\<lambda>row. if p_id row = p_id x then set_price_columns x row else row) (positions s)"
    using a(2) by (auto simp: sql_updatePosition_def)
  then have "map entry_fields (positions s') = map entry_fields (positions s)"
    using 1[of "positions s"] by simp
  then show "entry_within c s'"
    using a(1) unfolding entry_within_def by simp
qed

lemma ew_deletePosition: "pres (entry_within c) (deletePosition x)"
  unfolding deletePosition_def
proof (rule pres_run)
  fix s n s' assume a: "entry_within c s" "sql_deletePosition x s = Inr (n, s')"
  have p: "positions s' = filter (\<lambda>row. p_id row \<noteq> x) (positions s)"
    using a(2) by (auto simp: sql_deletePosition_def Let_def)
  show "entry_within c s'"
    using a(1) unfolding entry_within_def p by auto
qed

lemma ew_updatePosition: "pres (entry_within c) (updatePosition cfg a price lfg)"
  by (intro pres_updatePosition ew_db_updatePosition ew_deletePosition ew_of_pos
        pos_updateOrder pos_insertTradeHistory pos_cancelPositionOrders)

lemma updatePosition_returned:
  assumes "updatePosition cfg a price lfg w = (Returns (Some p'), w')"
  shows "\<exists>p. getPosition (db w) a = Some p \<and>
           p' = p\<lparr>p_currentPrice := price,
                  p_highestPrice := js_max (p_highestPrice p) price,
                  p_lowestPrice := js_min (p_lowestPrice p) price,
                  p_lastUpdated := now w,
                  p_lfg := (if js_truthy lfg then Fin 1 else Fin 0)\<rparr>"
  using assms
  by (auto simp: updatePosition_def Let_def bnd_def ret_def
        split: option.splits prod.splits outcome.splits if_splits)

text \<open>
  C9: \<open>updatePosition\<close> leaves identity, address, symbol, entry price, capital
  committed, entry time and status of every position row as they were (rows may
  disappear, when the position is closed), and the position it returns differs from
  the stored one in current price, the two water marks, the timestamp and the flag
  only.
\<close>

theorem C9_updatePosition_frame:
  "set (map entry_fields (positions (db (snd (updatePosition cfg address newPrice lfg w)))))
     \<subseteq> set (map entry_fields (positions (db w)))
   \<and> (fst (updatePosition cfg address newPrice lfg w) = Returns (Some p') \<longrightarrow>
        (\<exists>p. getPosition (db w) address = Some p \<and> entry_fields p' = entry_fields p
           \<and> p_entryPrice p' = p_entryPrice p \<and> p_solInvested p' = p_solInvested p
           \<and> p_entryTime p' = p_entryTime p \<and> p_symbol p' = p_symbol p
           \<and> p_address p' = p_address p))"
proof
  have "entry_within (positions (db w)) (db w)" by (simp add: entry_within_def)
  from presD[OF ew_updatePosition this]
  show "set (map entry_fields (positions (db (snd (updatePosition cfg address newPrice lfg w)))))
     \<subseteq> set (map entry_fields (positions (db w)))"
    by (simp add: entry_within_def)
next
  show "fst (updatePosition cfg address newPrice lfg w) = Returns (Some p') \<longrightarrow>
        (\<exists>p. getPosition (db w) address = Some p \<and> entry_fields p' = entry_fields p
           \<and> p_entryPrice p' = p_entryPrice p \<and> p_solInvested p' = p_solInvested p
           \<and> p_entryTime p' = p_entryTime p \<and> p_symbol p' = p_symbol p
           \<and> p_address p' = p_address p)"
  proof
    assume "fst (updatePosition cfg address newPrice lfg w) = Returns (Some p')"
    then have "updatePosition cfg address newPrice lfg w =
       (Returns (Some p'), snd (updatePosition cfg address newPrice lfg w))"
      by (metis prod.collapse)
    from updatePosition_returned[OF this]
    show "\<exists>p. getPosition (db w) address = Some p \<and> entry_fields p' = entry_fields p
           \<and> p_entryPrice p' = p_entryPrice p \<and> p_solInvested p' = p_solInvested p
           \<and> p_entryTime p' = p_entryTime p \<and> p_symbol p' = p_symbol p
           \<and> p_address p' = p_address p"
      by (auto simp: entry_fields_def)
  qed
qed



subsection \<open>Water marks\<close>






















lemma postD_Returns: "post Q m \<Longrightarrow> m w = (Returns x, w') \<Longrightarrow> Q x"
  by (auto simp: post_def dest!: spec[of _ w])

lemma postD_Throws: "post Q m \<Longrightarrow> m w = (Throws e, w') \<Longrightarrow> e \<noteq> NO_BALANCE"
  by (auto simp: post_def dest!: spec[of _ w])

lemma post_ret: "Q x \<Longrightarrow> post Q (ret x)"
  by (simp add: post_def ret_def)

lemma post_bnd:
  assumes "post Q1 m" "\<And>x. Q1 x \<Longrightarrow> post Q (f x)"
  shows "post Q (bnd m f)"
  unfolding post_def
proof
  fix w
  obtain r w1 where m: "m w = (r, w1)" by (cases "m w")
  show "case fst (bnd m f w) of Returns x \<Rightarrow> Q x | Throws e \<Rightarrow> e \<noteq> NO_BALANCE"
  proof (cases r)
    case (Returns x)
    from postD_Returns[OF assms(1)] m Returns have "Q1 x" by simp
    from assms(2)[OF this] have "post Q (f x)" .
    then show ?thesis using m Returns by (simp add: bnd_def post_def)
  next
    case (Throws e)
    then show ?thesis using postD_Throws[OF assms(1)] m by (simp add: bnd_def)
  qed
qed

lemma post_try_catch:
  assumes "post Q m" "\<And>e. e \<noteq> NO_BALANCE \<Longrightarrow> post Q (h e)"
  shows "post Q (try_catch m h)"
  unfolding post_def
proof
  fix w
  obtain r w1 where m: "m w = (r, w1)" by (cases "m w")
  show "case fst (try_catch m h w) of Returns x \<Rightarrow> Q x | Throws e \<Rightarrow> e \<noteq> NO_BALANCE"
  proof (cases r)
    case (Returns x)
    then show ?thesis using postD_Returns[OF assms(1)] m by (simp add: try_catch_def)
  next
    case (Throws e)
    from postD_Throws[OF assms(1)] m Throws have "e \<noteq> NO_BALANCE" by simp
    from assms(2)[OF this] have "post Q (h e)" .
    then show ?thesis using m Throws by (simp add: try_catch_def post_def)
  qed
qed

lemma post_getTokenBalance: "post (\<lambda>_. True) (getTokenBalance a)"
  by (simp add: post_def getTokenBalance_def NO_BALANCE_def split: list.splits balance_answer.splits)

lemma post_executeJupiterSwap: "post (\<lambda>_. True) (executeJupiterSwap ps)"
  by (simp add: post_def executeJupiterSwap_def split: list.splits)

lemma post_BigInt: "post (\<lambda>_. True) (BigInt x)"
  by (simp add: post_def BigInt_def ret_def NO_BALANCE_def split: jsnum.splits)

lemma benign_ok [simp]: "benign (ok_result sg)"
  by (simp add: benign_def ok_result_def)

lemma benign_failed: "msg \<noteq> NO_BALANCE \<Longrightarrow> benign (failed_result msg)"
  by (simp add: benign_def failed_result_def)

lemma post_run_total:
  assumes "\<And>s. \<exists>n s'. stmt s = Inr (n, s')"
  shows "post (\<lambda>_. True) (run stmt)"
  unfolding post_def run_def
proof
  fix w :: world
  from assms[of "db w"] obtain n s' where "stmt (db w) = Inr (n, s')" by blast
  then show "case fst (let w1 = w\<lparr>dbFaults := tl (dbFaults w)\<rparr>
              in if dbFaults w \<noteq> [] \<and> hd (dbFaults w) then (Throws ''SqliteError'', w1)
                 else case stmt (db w) of Inl e \<Rightarrow> (Throws e, w1)
                      | Inr (n, s) \<Rightarrow> (Returns n, w1\<lparr>db := s\<rparr>)) of
          Returns x \<Rightarrow> True | Throws e \<Rightarrow> e \<noteq> NO_BALANCE"
    by (simp add: Let_def NO_BALANCE_def)
qed

lemma post_run:
  assumes "\<And>s e. stmt s = Inl e \<Longrightarrow> e \<noteq> NO_BALANCE"
  shows "post (\<lambda>_. True) (run stmt)"
  unfolding post_def run_def
proof
  fix w :: world
  show "case fst (let w1 = w\<lparr>dbFaults := tl (dbFaults w)\<rparr>
              in if dbFaults w \<noteq> [] \<and> hd (dbFaults w) then (Throws ''SqliteError'', w1)
                 else case stmt (db w) of Inl e \<Rightarrow> (Throws e, w1)
                      | Inr (n, s) \<Rightarrow> (Returns n, w1\<lparr>db := s\<rparr>)) of
          Returns x \<Rightarrow> True | Throws e \<Rightarrow> e \<noteq> NO_BALANCE"
    using assms[of "db w"]
    by (cases "stmt (db w)") (auto simp: Let_def NO_BALANCE_def)
qed

lemma post_updateOrder: "post (\<lambda>_. True) (updateOrder x)"
  unfolding updateOrder_def by (rule post_run_total) (simp add: sql_updateOrder_def)

lemma post_insertTradeHistory: "post (\<lambda>_. True) (insertTradeHistory x)"
  unfolding insertTradeHistory_def
  by (rule post_run) (auto simp: sql_insertTradeHistory_def NO_BALANCE_def split: if_splits)

lemma post_if: "post Q m \<Longrightarrow> post Q n \<Longrightarrow> post Q (if b then m else n)"
  by simp

lemma post_executeBuy: "post benign (executeBuy cfg p)"
  unfolding executeBuy_def
  by (intro post_try_catch post_if post_bnd[OF post_executeJupiterSwap] post_ret benign_ok benign_failed)
     (simp_all add: NO_BALANCE_def)

lemma post_executeSell_body:
  "post benign (case balance of
            None \<Rightarrow> ret (failed_result ''No token balance found'')
          | Some totalTokenBalance \<Rightarrow>
              if totalTokenBalance = 0 then ret (failed_result ''No token balance found'')
              else bnd (BigInt sellRatio) (\<lambda>ratio.
                bnd (executeJupiterSwap
                       \<lparr>inputMint = address, outputMint = SOL_MINT,
                        amount = round_double (of_int (bigint_div (int totalTokenBalance * ratio) 100)),
                        slippageBps = 4000\<rparr>)
                  (\<lambda>sg. if truthy_str sg then ret (ok_result sg)
                        else ret (failed_result ''Failed to get swap signature''))))"
proof (cases balance)
  case None
  then show ?thesis by (simp add: post_ret benign_failed NO_BALANCE_def)
next
  case (Some t)
  have "post benign (bnd (BigInt sellRatio) (\<lambda>ratio.
                bnd (executeJupiterSwap
                       \<lparr>inputMint = address, outputMint = SOL_MINT,
                        amount = round_double (of_int (bigint_div (int t * ratio) 100)),
                        slippageBps = 4000\<rparr>)
                  (\<lambda>sg. if truthy_str sg then ret (ok_result sg)
                        else ret (failed_result ''Failed to get swap signature''))))"
    by (intro post_bnd[OF post_BigInt] post_bnd[OF post_executeJupiterSwap] post_if post_ret
          benign_ok benign_failed) (simp add: NO_BALANCE_def)
  then show ?thesis using Some by (simp add: post_ret benign_failed NO_BALANCE_def)
qed

lemma post_executeSell: "post benign (executeSell cfg a sy g r d)"
  unfolding executeSell_def
  by (intro post_try_catch post_if post_bnd[OF post_getTokenBalance] post_executeSell_body
        post_ret benign_ok benign_failed)

lemma post_executeBuyOrder: "post benign (executeBuyOrder cfg order p)"
  unfolding executeBuyOrder_def
  by (intro post_try_catch post_executeBuy post_ret benign_failed)

lemma post_executeSellOrder: "post benign (executeSellOrder cfg order p)"
  unfolding executeSellOrder_def
  by (intro post_try_catch post_bnd[OF post_getTokenBalance] post_if post_executeSell
        post_ret benign_failed)
     (simp add: benign_def)

lemma post_Date_now: "post (\<lambda>_. True) Date_now"
  by (simp add: post_def Date_now_def)

lemma post_recordTradeHistory: "post (\<lambda>_. True) (recordTradeHistory order p result)"
proof (cases "signature result")
  case None
  then show ?thesis by (simp add: recordTradeHistory_def post_ret)
next
  case (Some sg)
  have "post (\<lambda>_. True) (bnd Date_now (\<lambda>t.
               bnd (insertTradeHistory (tradeRecord order p sg t)) (\<lambda>_. ret ())))"
    by (intro post_bnd[OF post_Date_now] post_bnd[OF post_insertTradeHistory] post_ret) simp
  then show ?thesis using Some by (simp add: recordTradeHistory_def post_ret)
qed

lemma executeOrder_try_benign:
  assumes "executeOrder_try cfg order p w = (r, order', w')"
  shows "case r of Returns result \<Rightarrow> benign result | Throws e \<Rightarrow> e \<noteq> NO_BALANCE"
proof -
  let ?inner = "if o_type order = MARKET_BUY then executeBuyOrder cfg order p
            else executeSellOrder cfg order p"
  have pi: "post benign ?inner" by (simp add: post_executeBuyOrder post_executeSellOrder)
  obtain x w1 where i: "?inner w = (x, w1)" by (cases "?inner w")
  show ?thesis
  proof (cases x)
    case (Throws e)
    have "e \<noteq> NO_BALANCE" using postD_Throws[OF pi i[unfolded Throws]] .
    moreover have "r = Throws e" using i assms Throws by (simp add: executeOrder_try_def)
    ultimately show ?thesis by simp
  next
    case (Returns result)
    have b: "benign result" using postD_Returns[OF pi i[unfolded Returns]] .
    show ?thesis
    proof (cases "success result")
      case True
      let ?o1 = "order\<lparr>o_status := COMPLETED, o_executedAt := Some (now w1),
                   o_signature := signature result\<rparr>"
      obtain y w2 where rt: "recordTradeHistory ?o1 p result w1 = (y, w2)"
        by (cases "recordTradeHistory ?o1 p result w1")
      obtain z w3 where up: "updateOrder ?o1 w2 = (z, w3)" by (cases "updateOrder ?o1 w2")
      have "post (\<lambda>_. True) (recordTradeHistory ?o1 p result)"
        by (rule post_recordTradeHistory)
      then have y: "y = Throws e \<Longrightarrow> e \<noteq> NO_BALANCE" for e
        using postD_Throws rt by blast
      have z: "z = Throws e \<Longrightarrow> e \<noteq> NO_BALANCE" for e
        using postD_Throws[OF post_updateOrder] up by blast
      show ?thesis using i Returns True rt up b y z assms
        by (cases y; cases z) (auto simp: executeOrder_try_def Let_def)
    next
      case False
      let ?o1 = "order\<lparr>o_status := FAILED, o_error := error result,
                   o_retryCount := Suc (o_retryCount order)\<rparr>"
      obtain z w2 where up: "updateOrder ?o1 w1 = (z, w2)" by (cases "updateOrder ?o1 w1")
      have z: "z = Throws e \<Longrightarrow> e \<noteq> NO_BALANCE" for e
        using postD_Throws[OF post_updateOrder] up by blast
      show ?thesis using i Returns False up b z assms
        by (cases z) (auto simp: executeOrder_try_def Let_def)
    qed
  qed
qed

lemma executeOrder_benign:
  assumes "executeOrder cfg order p w = (Returns (result, order'), w')"
  shows "benign result"
proof (cases "o_id order \<in> executingOrders w")
  case True
  then show ?thesis using assms
    by (auto simp: executeOrder_def benign_def failed_result_def NO_BALANCE_def)
next
  case False
  let ?w1 = "w\<lparr>executingOrders := insert (o_id order) (executingOrders w)\<rparr>"
  let ?o1 = "order\<lparr>o_status := EXECUTING\<rparr>"
  obtain r w2 where upd: "updateOrder ?o1 ?w1 = (r, w2)" by (cases "updateOrder ?o1 ?w1")
  then obtain n where r: "r = Returns n"
    using assms False by (cases r) (auto simp: executeOrder_def Let_def)
  obtain r3 o3 w3 where tr: "executeOrder_try cfg ?o1 p w2 = (r3, o3, w3)"
    by (cases "executeOrder_try cfg ?o1 p w2") auto
  note tb = executeOrder_try_benign[OF tr]
  show ?thesis
  proof (cases r3)
    case (Returns res)
    then show ?thesis using assms False upd r tr tb by (auto simp: executeOrder_def Let_def)
  next
    case (Throws msg)
    then have m: "msg \<noteq> NO_BALANCE" using tb by simp
    obtain z w4 where c: "updateOrder (o3\<lparr>o_status := FAILED, o_error := Some msg,
                         o_retryCount := Suc (o_retryCount o3)\<rparr>) w3 = (z, w4)"
      by (cases "updateOrder (o3\<lparr>o_status := FAILED, o_error := Some msg,
                         o_retryCount := Suc (o_retryCount o3)\<rparr>) w3")
    show ?thesis using assms False upd r tr Throws c benign_failed[OF m]
      by (cases z) (auto simp: executeOrder_def executeOrder_catch_def Let_def)
  qed
qed

lemma js_lt_not_ge: "js_lt x y \<Longrightarrow> \<not> js_ge x y"
  by (cases x; cases y) (auto simp: js_lt_def js_ge_def)

lemma checkLoop_skip:
  "\<not> shouldTriggerOrder order position \<Longrightarrow>
   checkLoop cfg position (order # rest) w = checkLoop cfg position rest w"
  by simp

lemma checkLoop_step:
  assumes "shouldTriggerOrder order position"
    and "updateOrder (order\<lparr>o_status := TRIGGERED, o_triggeredAt := Some (now w)\<rparr>) w = (Returns n, w1)"
    and "executeOrder cfg (order\<lparr>o_status := TRIGGERED, o_triggeredAt := Some (now w)\<rparr>) position w1
           = (Returns (result, order2), w2)"
  shows "checkLoop cfg position (order # rest) w =
           (if success result \<and> js_ge (o_sellRatio order) (Fin 100) then (Returns True, w2)
            else checkLoop cfg position rest w2)"
proof -
  have "benign result" using executeOrder_benign[OF assms(3)] .
  moreover have "o_sellRatio order2 = o_sellRatio order"
    using executeOrder_same[OF assms(3)] by simp
  ultimately show ?thesis using assms by (auto simp: Let_def benign_def)
qed

lemma checkLoop_no_close:
  "\<forall>od \<in> set os. \<not> js_ge (o_sellRatio od) (Fin 100) \<Longrightarrow>
   fst (checkLoop cfg p os w) \<noteq> Returns True"
proof (induction os arbitrary: w)
  case Nil
  then show ?case by simp
next
  case (Cons order rest)
  have IH: "fst (checkLoop cfg p rest w') \<noteq> Returns True" for w'
    using Cons by simp
  show ?case
  proof (cases "shouldTriggerOrder order p")
    case False
    then show ?thesis using IH by simp
  next
    case True
    let ?o1 = "order\<lparr>o_status := TRIGGERED, o_triggeredAt := Some (now w)\<rparr>"
    obtain r w1 where upd: "updateOrder ?o1 w = (r, w1)" by (cases "updateOrder ?o1 w")
    show ?thesis
    proof (cases r)
      case (Throws e)
      then show ?thesis using True upd by (simp add: Let_def)
    next
      case (Returns n)
      obtain r2 w2 where ex: "executeOrder cfg ?o1 p w1 = (r2, w2)"
        by (cases "executeOrder cfg ?o1 p w1")
      show ?thesis
      proof (cases r2)
        case (Throws e)
        then show ?thesis using True upd Returns ex by (simp add: Let_def)
      next
        case (Returns x)
        obtain result order2 where x: "x = (result, order2)" by (cases x)
        have "\<not> js_ge (o_sellRatio order) (Fin 100)" using Cons.prems by simp
        then show ?thesis
          using checkLoop_step[OF True upd[unfolded \<open>r = Returns n\<close>] ex[unfolded Returns x], of rest] IH
          by simp
      qed
    qed
  qed
qed

lemma row_updateOrder:
  "o_id o' \<noteq> o_id r \<Longrightarrow> pres (\<lambda>s. r \<in> set (orders s)) (updateOrder o')"
  unfolding updateOrder_def
  by (rule pres_run) (auto simp: sql_updateOrder_def)

lemma row_insertTradeHistory: "pres (\<lambda>s. r \<in> set (orders s)) (insertTradeHistory x)"
  unfolding insertTradeHistory_def
  by (rule pres_run) (auto simp: sql_insertTradeHistory_def split: if_splits)

lemma checkLoop_keeps_row:
  assumes "r \<in> set (orders (db w))"
    and "\<forall>od \<in> set os. shouldTriggerOrder od p \<longrightarrow> o_id od \<noteq> o_id r"
  shows "r \<in> set (orders (db (snd (checkLoop cfg p os w))))"
  using assms(1)
  by (rule pres_checkLoop_id[where P = "\<lambda>s. r \<in> set (orders s)", rotated 2])
     (use assms(2) in \<open>auto intro!: row_updateOrder row_insertTradeHistory\<close>)

lemma checkLoop_prefix:
  "\<forall>od \<in> set pre. \<not> shouldTriggerOrder od position \<Longrightarrow>
   checkLoop cfg position (pre @ rest) w = checkLoop cfg position rest w"
  by (induction pre) simp_all

lemma pending_in_table:
  "od \<in> set (filter P (getPositionOrders s pid)) \<Longrightarrow> od \<in> set (orders s)"
  by (simp add: getPositionOrders_def)

lemma pass_keeps_row:
  assumes d: "distinct (map o_id (orders (db w)))"
    and r: "row \<in> set (filter (\<lambda>order. o_status order = PENDING)
                      (getPositionOrders (db w) (p_id position)))"
    and n: "\<not> shouldTriggerOrder row position"
  shows "row \<in> set (orders (db (snd (checkAndExecuteOrders cfg position w))))"
  unfolding checkAndExecuteOrders_def
proof (rule checkLoop_keeps_row)
  show "row \<in> set (orders (db w))" using r by (rule pending_in_table)
  show "\<forall>od \<in> set (filter (\<lambda>order. o_status order = PENDING)
                  (getPositionOrders (db w) (p_id position))).
          shouldTriggerOrder od position \<longrightarrow> o_id od \<noteq> o_id row"
  proof (intro ballI impI)
    fix od
    assume a: "od \<in> set (filter (\<lambda>order. o_status order = PENDING)
                  (getPositionOrders (db w) (p_id position)))"
      and t: "shouldTriggerOrder od position"
    have "od \<in> set (orders (db w))" using a by (rule pending_in_table)
    moreover have "row \<in> set (orders (db w))" using r by (rule pending_in_table)
    moreover have "od \<noteq> row" using t n by auto
    ultimately show "o_id od \<noteq> o_id row"
      using d by (auto simp: distinct_map inj_on_def)
  qed
qed

text \<open>
  C6: in the evaluate-and-execute pass an order whose trigger is false is skipped: the
  loop goes on in the same state, a pass in which no pending order triggers returns no
  close signal and changes nothing, and after any pass the row of a pending order that
  did not trigger is in the table unchanged (so still PENDING).  When the first pending
  order that triggers executes successfully with sell ratio at least 100, the pass ends
  there with the close signal, in the state that execution left; with sell ratio below
  100 the pass goes on with the pending orders after it, in that state.  A pass over
  orders whose sell ratios are all below 100 never gives the close signal.
\<close>

theorem C6_evaluate_and_execute:
  "(\<not> shouldTriggerOrder order position \<longrightarrow>
      checkLoop cfg position (order # rest) w = checkLoop cfg position rest w)
   \<and> (shouldTriggerOrder order position
        \<and> updateOrder (order\<lparr>o_status := TRIGGERED, o_triggeredAt := Some (now w)\<rparr>) w = (Returns n, w1)
        \<and> executeOrder cfg (order\<lparr>o_status := TRIGGERED, o_triggeredAt := Some (now w)\<rparr>) position w1
             = (Returns (result, order2), w2)
        \<and> success result \<longrightarrow>
          (js_ge (o_sellRatio order) (Fin 100) \<longrightarrow>
             checkLoop cfg position (order # rest) w = (Returns True, w2))
          \<and> (js_lt (o_sellRatio order) (Fin 100) \<longrightarrow>
               checkLoop cfg position (order # rest) w = checkLoop cfg position rest w2))
   \<and> ((\<forall>od \<in> set pending. js_lt (o_sellRatio od) (Fin 100)) \<longrightarrow>
        fst (checkLoop cfg position pending w) \<noteq> Returns True)
   \<and> ((\<forall>od \<in> set (getPositionOrders (db w) (p_id position)).
          o_status od = PENDING \<longrightarrow> js_lt (o_sellRatio od) (Fin 100)) \<longrightarrow>
        fst (checkAndExecuteOrders cfg position w) \<noteq> Returns True)
   \<and> (row \<in> set (orders (db w))
        \<and> (\<forall>od \<in> set pending. shouldTriggerOrder od position \<longrightarrow> o_id od \<noteq> o_id row) \<longrightarrow>
        row \<in> set (orders (db (snd (checkLoop cfg position pending w)))))
   \<and> ((\<forall>od \<in> set (filter (\<lambda>order. o_status order = PENDING)
                       (getPositionOrders (db w) (p_id position))).
          \<not> shouldTriggerOrder od position) \<longrightarrow>
        checkAndExecuteOrders cfg position w = (Returns False, w))
   \<and> (filter (\<lambda>order. o_status order = PENDING) (getPositionOrders (db w) (p_id position))
          = pre @ order # rest
        \<and> (\<forall>od \<in> set pre. \<not> shouldTriggerOrder od position)
        \<and> shouldTriggerOrder order position
        \<and> updateOrder (order\<lparr>o_status := TRIGGERED, o_triggeredAt := Some (now w)\<rparr>) w = (Returns n, w1)
        \<and> executeOrder cfg (order\<lparr>o_status := TRIGGERED, o_triggeredAt := Some (now w)\<rparr>) position w1
             = (Returns (result, order2), w2)
        \<and> success result \<longrightarrow>
          (js_ge (o_sellRatio order) (Fin 100) \<longrightarrow>
             checkAndExecuteOrders cfg position w = (Returns True, w2))
          \<and> (js_lt (o_sellRatio order) (Fin 100) \<longrightarrow>
               checkAndExecuteOrders cfg position w = checkLoop cfg position rest w2))
   \<and> (distinct (map o_id (orders (db w)))
        \<and> row \<in> set (filter (\<lambda>order. o_status order = PENDING)
                         (getPositionOrders (db w) (p_id position)))
        \<and> \<not> shouldTriggerOrder row position \<longrightarrow>
        row \<in> set (orders (db (snd (checkAndExecuteOrders cfg position w)))))"
proof (intro conjI impI)
  assume "\<not> shouldTriggerOrder order position"
  then show "checkLoop cfg position (order # rest) w = checkLoop cfg position rest w"
    by (rule checkLoop_skip)
next
  assume a: "shouldTriggerOrder order position
        \<and> updateOrder (order\<lparr>o_status := TRIGGERED, o_triggeredAt := Some (now w)\<rparr>) w = (Returns n, w1)
        \<and> executeOrder cfg (order\<lparr>o_status := TRIGGERED, o_triggeredAt := Some (now w)\<rparr>) position w1
             = (Returns (result, order2), w2)
        \<and> success result"
  then have s: "checkLoop cfg position (order # rest) w =
           (if success result \<and> js_ge (o_sellRatio order) (Fin 100) then (Returns True, w2)
            else checkLoop cfg position rest w2)"
    by (intro checkLoop_step) auto
  {
    assume "js_ge (o_sellRatio order) (Fin 100)"
    then show "checkLoop cfg position (order # rest) w = (Returns True, w2)"
      using s a by simp
  }
  {
    assume "js_lt (o_sellRatio order) (Fin 100)"
    then show "checkLoop cfg position (order # rest) w = checkLoop cfg position rest w2"
      using s js_lt_not_ge by simp
  }
next
  assume "\<forall>od \<in> set pending. js_lt (o_sellRatio od) (Fin 100)"
  then have "\<forall>od \<in> set pending. \<not> js_ge (o_sellRatio od) (Fin 100)"
    using js_lt_not_ge by blast
  then show "fst (checkLoop cfg position pending w) \<noteq> Returns True"
    by (rule checkLoop_no_close)
next
  assume "\<forall>od \<in> set (getPositionOrders (db w) (p_id position)).
          o_status od = PENDING \<longrightarrow> js_lt (o_sellRatio od) (Fin 100)"
  then have "\<forall>od \<in> set (filter (\<lambda>order. o_status order = PENDING)
                 (getPositionOrders (db w) (p_id position))). \<not> js_ge (o_sellRatio od) (Fin 100)"
    using js_lt_not_ge by auto
  then show "fst (checkAndExecuteOrders cfg position w) \<noteq> Returns True"
    unfolding checkAndExecuteOrders_def by (rule checkLoop_no_close)
next
  assume "row \<in> set (orders (db w))
        \<and> (\<forall>od \<in> set pending. shouldTriggerOrder od position \<longrightarrow> o_id od \<noteq> o_id row)"
  then show "row \<in> set (orders (db (snd (checkLoop cfg position pending w))))"
    by (intro checkLoop_keeps_row) auto
next
  assume "\<forall>od \<in> set (filter (\<lambda>order. o_status order = PENDING)
                       (getPositionOrders (db w) (p_id position))).
          \<not> shouldTriggerOrder od position"
  from checkLoop_prefix[OF this, of cfg "[]" w]
  show "checkAndExecuteOrders cfg position w = (Returns False, w)"
    by (simp add: checkAndExecuteOrders_def)
next
  assume a: "filter (\<lambda>order. o_status order = PENDING) (getPositionOrders (db w) (p_id position))
          = pre @ order # rest
        \<and> (\<forall>od \<in> set pre. \<not> shouldTriggerOrder od position)
        \<and> shouldTriggerOrder order position
        \<and> updateOrder (order\<lparr>o_status := TRIGGERED, o_triggeredAt := Some (now w)\<rparr>) w = (Returns n, w1)
        \<and> executeOrder cfg (order\<lparr>o_status := TRIGGERED, o_triggeredAt := Some (now w)\<rparr>) position w1
             = (Returns (result, order2), w2)
        \<and> success result"
  then have p: "checkAndExecuteOrders cfg position w = checkLoop cfg position (order # rest) w"
    using checkLoop_prefix[of pre position cfg "order # rest" w]
    by (simp add: checkAndExecuteOrders_def)
  from a have s: "checkLoop cfg position (order # rest) w =
           (if success result \<and> js_ge (o_sellRatio order) (Fin 100) then (Returns True, w2)
            else checkLoop cfg position rest w2)"
    by (intro checkLoop_step) auto
  {
    assume "js_ge (o_sellRatio order) (Fin 100)"
    then show "checkAndExecuteOrders cfg position w = (Returns True, w2)"
      using p s a by simp
  }
  {
    assume "js_lt (o_sellRatio order) (Fin 100)"
    then show "checkAndExecuteOrders cfg position w = checkLoop cfg position rest w2"
      using p s js_lt_not_ge by simp
  }
next
  assume "distinct (map o_id (orders (db w)))
        \<and> row \<in> set (filter (\<lambda>order. o_status order = PENDING)
                         (getPositionOrders (db w) (p_id position)))
        \<and> \<not> shouldTriggerOrder row position"
  then show "row \<in> set (orders (db (snd (checkAndExecuteOrders cfg position w))))"
    by (intro pass_keeps_row) auto
qed

section \<open>The trigger predicate\<close>

lemma checkCondition_spec: "checkCondition actual cmp target = spec_compare actual cmp target"
  by (cases cmp) (simp_all add: checkCondition_def)

lemma gain_exact:
  assumes "p_currentPrice position = Fin c" and "p_entryPrice position = Fin e" and "e \<noteq> 0"
    and "round_double (c - e) = Fin d" and "round_double (d / e) = Fin g"
  shows "calculateGain position = round_double (g * 100)"
  using assms by (simp add: calculateGain_def js_sub_def)

lemma shouldTrigger_gain:
  "o_triggerType order = GAIN_PERCENT \<Longrightarrow>
   shouldTriggerOrder order position =
     spec_compare (calculateGain position) (o_triggerCondition order) (o_triggerValue order)"
  by (simp add: shouldTriggerOrder_def calculateGain_def checkCondition_spec)

lemma shouldTrigger_other:
  "o_triggerType order \<noteq> GAIN_PERCENT \<Longrightarrow>
   shouldTriggerOrder order position =
     spec_trigger (o_triggerType order) (o_triggerCondition order) (o_triggerValue order) position"
  by (cases "o_triggerType order") (simp_all add: shouldTriggerOrder_def checkCondition_spec)

text \<open>
  C7: absolute-price compares the current price with the threshold, flag-equality holds
  iff the flag equals the threshold, immediate always holds; on numbers \<open>compare\<close> is
  \<open>\<ge>\<close> for GTE, \<open>\<le>\<close> for LTE and equality for EQ.  Gain-percent compares with the
  threshold the value of \<open>(current - entry) / entry * 100\<close> as the language computes it:
  for finite prices and a non-zero entry price, the difference rounded to a double,
  divided by the entry price and rounded, multiplied by 100 and rounded.  Where none of
  the three results needs rounding the predicate is the specification's table.
\<close>

theorem C7_trigger_predicate:
  "(o_triggerType order \<noteq> GAIN_PERCENT \<longrightarrow>
      shouldTriggerOrder order position =
        spec_trigger (o_triggerType order) (o_triggerCondition order) (o_triggerValue order) position)
   \<and> (o_triggerType order = GAIN_PERCENT \<longrightarrow>
        shouldTriggerOrder order position =
          spec_compare (calculateGain position) (o_triggerCondition order) (o_triggerValue order))
   \<and> (p_currentPrice position = Fin c \<and> p_entryPrice position = Fin e \<and> e \<noteq> 0
        \<and> round_double (c - e) = Fin d \<and> round_double (d / e) = Fin g \<longrightarrow>
        calculateGain position = round_double (g * 100))
   \<and> (p_currentPrice position = Fin c \<and> p_entryPrice position = Fin e \<and> e \<noteq> 0
        \<and> round_double (c - e) = Fin (c - e)
        \<and> round_double ((c - e) / e) = Fin ((c - e) / e)
        \<and> round_double ((c - e) / e * 100) = Fin ((c - e) / e * 100) \<longrightarrow>
        shouldTriggerOrder order position =
          spec_trigger (o_triggerType order) (o_triggerCondition order) (o_triggerValue order) position)
   \<and> checkCondition actual cmp target = spec_compare actual cmp target
   \<and> checkCondition (Fin x) GTE (Fin y) = (x \<ge> y)
   \<and> checkCondition (Fin x) LTE (Fin y) = (x \<le> y)
   \<and> checkCondition (Fin x) EQ (Fin y) = (x = y)
   \<and> shouldTriggerOrder (order\<lparr>o_triggerType := LFG_FLAG, o_triggerValue := Fin t\<rparr>)
        (position\<lparr>p_lfg := Fin f\<rparr>) = (f = t)
   \<and> shouldTriggerOrder (order\<lparr>o_triggerType := IMMEDIATE\<rparr>) position"
proof (intro conjI impI)
  assume "o_triggerType order \<noteq> GAIN_PERCENT"
  then show "shouldTriggerOrder order position =
        spec_trigger (o_triggerType order) (o_triggerCondition order) (o_triggerValue order) position"
    by (rule shouldTrigger_other)
next
  assume "o_triggerType order = GAIN_PERCENT"
  then show "shouldTriggerOrder order position =
          spec_compare (calculateGain position) (o_triggerCondition order) (o_triggerValue order)"
    by (rule shouldTrigger_gain)
next
  assume "p_currentPrice position = Fin c \<and> p_entryPrice position = Fin e \<and> e \<noteq> 0
        \<and> round_double (c - e) = Fin d \<and> round_double (d / e) = Fin g"
  then show "calculateGain position = round_double (g * 100)"
    by (intro gain_exact) auto
next
  assume a: "p_currentPrice position = Fin c \<and> p_entryPrice position = Fin e \<and> e \<noteq> 0
        \<and> round_double (c - e) = Fin (c - e)
        \<and> round_double ((c - e) / e) = Fin ((c - e) / e)
        \<and> round_double ((c - e) / e * 100) = Fin ((c - e) / e * 100)"
  then have "calculateGain position = Fin ((c - e) / e * 100)"
    using gain_exact[of position c e "c - e" "(c - e) / e"] by simp
  moreover have "spec_gainPercent position = Fin ((c - e) / e * 100)"
    using a by (simp add: spec_gainPercent_def)
  ultimately show "shouldTriggerOrder order position =
          spec_trigger (o_triggerType order) (o_triggerCondition order) (o_triggerValue order) position"
    using shouldTrigger_gain[of order position] shouldTrigger_other[of order position]
    by (cases "o_triggerType order = GAIN_PERCENT") simp_all
qed (simp_all add: checkCondition_spec shouldTriggerOrder_def checkCondition_def js_ge_def js_eq_def)

lemma round_50000: "round_double 50000 = Fin 50000"
  by (simp add: dbl_defs Let_def)

lemma round_1: "round_double 1 = Fin 1"
  by (simp add: dbl_defs Let_def)

lemma round_100: "round_double 100 = Fin 100"
  by (simp add: dbl_defs Let_def)

lemma round_11400: "round_double 11400 = Fin 11400"
  by (simp add: dbl_defs Let_def)

lemma round_57_100: "round_double (57 / 100) = Fin (5134103575202365 / 9007199254740992)"
  by (simp add: dbl_defs Let_def)

lemma round_gain: "round_double (5134103575202365 / 9007199254740992 * 100) = Fin (57 - 1 / 2 ^ 47)"
  by (simp add: dbl_defs Let_def)

theorem C7_trigger_predicate_witness:
  "o_triggerType sample_order = GAIN_PERCENT
   \<and> p_currentPrice sample_position = Fin 100000 \<and> p_entryPrice sample_position = Fin 50000
   \<and> round_double (100000 - 50000) = Fin (100000 - 50000)
   \<and> round_double ((100000 - 50000) / 50000) = Fin ((100000 - 50000) / 50000)
   \<and> round_double ((100000 - 50000) / 50000 * 100) = Fin ((100000 - 50000) / 50000 * 100)
   \<and> calculateGain sample_position = Fin 100
   \<and> shouldTriggerOrder sample_order sample_position
   \<and> spec_trigger GAIN_PERCENT GTE (Fin 100) sample_position
   \<and> p_currentPrice gain_position = Fin 31400 \<and> p_entryPrice gain_position = Fin 20000
   \<and> round_double (31400 - 20000) = Fin 11400
   \<and> round_double (11400 / 20000) = Fin (5134103575202365 / 9007199254740992)
   \<and> calculateGain gain_position = Fin (57 - 1 / 2 ^ 47)
   \<and> o_triggerType (sample_order\<lparr>o_triggerType := PRICE, o_triggerValue := Fin 90000\<rparr>) \<noteq> GAIN_PERCENT
   \<and> shouldTriggerOrder (sample_order\<lparr>o_triggerType := PRICE, o_triggerValue := Fin 90000\<rparr>)
        sample_position"
  using C7_trigger_predicate [where order = sample_order and position = sample_position
          and c = 100000 and e = 50000 and d = 50000 and g = 1]
        C7_trigger_predicate [where order = gain_order and position = gain_position
          and c = 31400 and e = 20000 and d = 11400 and g = "5134103575202365 / 9007199254740992"]
        C7_trigger_predicate [where order = "sample_order\<lparr>o_triggerType := PRICE, o_triggerValue := Fin 90000\<rparr>"
          and position = sample_position]
        round_50000 round_1 round_100 round_11400 round_57_100 round_gain
  by (simp add: sample_order_def sample_position_def gain_position_def gain_order_def
        spec_gainPercent_def js_ge_def)

text \<open>
  C7 with the gain taken as the number \<open>(current - entry) / entry * 100\<close>: bought at
  20000 and now at 31400 the gain is 57, so the table triggers an order to sell at a
  gain of at least 57; the program computes \<open>57 - 2^-47\<close> and does not trigger it.
\<close>

theorem C7_exact_gain_counterexample:
  "o_triggerType gain_order = GAIN_PERCENT \<and> o_triggerCondition gain_order = GTE
   \<and> o_triggerValue gain_order = Fin 57
   \<and> p_entryPrice gain_position = Fin 20000 \<and> p_currentPrice gain_position = Fin 31400
   \<and> (31400 - 20000) / 20000 * 100 = (57 :: real)
   \<and> spec_trigger (o_triggerType gain_order) (o_triggerCondition gain_order)
        (o_triggerValue gain_order) gain_position
   \<and> calculateGain gain_position = Fin (57 - 1 / 2 ^ 47)
   \<and> \<not> shouldTriggerOrder gain_order gain_position"
  by (simp add: gain_order_def gain_position_def sample_order_def sample_position_def
        spec_gainPercent_def shouldTriggerOrder_def calculateGain_def checkCondition_def
        js_sub_def js_ge_def dbl_defs Let_def)

section \<open>The ingress guard\<close>

text \<open>
  C10: a tick whose address is empty, whose symbol is missing or empty, or whose
  price is NaN or not strictly positive leaves the whole state as it was:
  \<open>processToken\<close> returns at once, before it reads or writes anything.
\<close>

theorem C10_processToken_guard:
  assumes "tk_a token = [] \<or> tk_s token = None \<or> tk_s token = Some [] \<or> js_isNaN (tk_mc token)
           \<or> \<not> js_gt (tk_mc token) (Fin 0)"
  shows "processToken cfg token w = (Returns (), w)"
proof -
  have "js_isNaN (tk_mc token) \<or> js_le (tk_mc token) (Fin 0)" if "\<not> js_gt (tk_mc token) (Fin 0)"
    using that by (cases "tk_mc token") (auto simp: js_gt_def js_lt_def)
  with assms show ?thesis
    by (auto simp: processToken_def truthy_str_def Let_def)
qed

theorem C10_processToken_guard_witness:
  "js_isNaN (tk_mc sample_token)
   \<and> processToken sample_config sample_token sample_world = (Returns (), sample_world)"
  using C10_processToken_guard [of sample_token sample_config sample_world]
  by (simp add: sample_token_def)

section \<open>The in-flight set of executeOrder\<close>

text \<open>
  Called for an order whose identity is in the in-flight set, \<open>executeOrder\<close> returns
  the failure result and leaves the order object and the whole state as they were.
  On every other call that returns, the identity is out of the set again, and so it
  is whenever the status write that precedes the \<open>try\<close> block was accepted.
\<close>

lemma executeOrder_in_flight:
  "(o_id order \<in> executingOrders w \<longrightarrow>
      executeOrder cfg order position w =
        (Returns (failed_result ''Order already executing'', order), w))
   \<and> (o_id order \<notin> executingOrders w \<longrightarrow>
        ((\<exists>x. fst (executeOrder cfg order position w) = Returns x) \<or>
         (\<exists>n. fst (updateOrder (order\<lparr>o_status := EXECUTING\<rparr>)
                     (w\<lparr>executingOrders := insert (o_id order) (executingOrders w)\<rparr>)) = Returns n)
         \<longrightarrow> o_id order \<notin> executingOrders (snd (executeOrder cfg order position w))))"
  by (auto simp: executeOrder_def Let_def split: prod.splits outcome.splits)

text \<open>
  C3: \<open>executeOrder\<close> adds the identity of the order to the in-flight set and writes
  the status EXECUTING before its \<open>try\<close> block.  When that write raises, the call
  raises with the identity still in the set and the store as it was, and the next call
  for the order returns the failure result for an order that is already executing.
\<close>

theorem C3_executeOrder_marker_stays:
  "o_id sample_order \<notin> executingOrders stuck_world
   \<and> executeOrder sample_config sample_order sample_position stuck_world
       = (Throws ''SqliteError'',
          stuck_world\<lparr>executingOrders := {o_id sample_order}, dbFaults := []\<rparr>)
   \<and> o_id sample_order
       \<in> executingOrders (snd (executeOrder sample_config sample_order sample_position stuck_world))
   \<and> db (snd (executeOrder sample_config sample_order sample_position stuck_world)) = db stuck_world
   \<and> executeOrder sample_config sample_order sample_position
        (snd (executeOrder sample_config sample_order sample_position stuck_world))
       = (Returns (failed_result ''Order already executing'', sample_order),
          stuck_world\<lparr>executingOrders := {o_id sample_order}, dbFaults := []\<rparr>)"
  by (simp add: executeOrder_def updateOrder_def run_def Let_def stuck_world_def sample_world2_def
        sample_world_def)

section \<open>The trade history\<close>

lemma no_fault_tl: "True \<notin> set fs \<Longrightarrow> True \<notin> set (tl fs)"
  by (cases fs) simp_all

lemma run_ok:
  assumes "True \<notin> set (dbFaults w)" and "stmt (db w) = Inr (n, s')"
  shows "run stmt w = (Returns n, w\<lparr>dbFaults := tl (dbFaults w), db := s'\<rparr>)"
proof -
  have "\<not> (dbFaults w \<noteq> [] \<and> hd (dbFaults w))"
    using assms(1) by (cases "dbFaults w") auto
  then show ?thesis using assms(2) by (simp add: run_def Let_def)
qed

lemma updateOrder_ok:
  assumes "True \<notin> set (dbFaults w)"
  shows "\<exists>n w'. updateOrder x w = (Returns n, w') \<and> trade_history (db w') = trade_history (db w)
           \<and> True \<notin> set (dbFaults w') \<and> executingOrders w' = executingOrders w"
  unfolding updateOrder_def
  using run_ok[OF assms, of "sql_updateOrder x"] no_fault_tl[OF assms]
  by (simp add: sql_updateOrder_def)

lemma insertTradeHistory_ok:
  assumes "True \<notin> set (dbFaults w)" and "t_symbol trade \<noteq> None"
  shows "\<exists>n w'. insertTradeHistory trade w = (Returns n, w')
           \<and> trade_history (db w') = trade_history (db w) @ [trade\<lparr>t_reason := or_null_str (t_reason trade)\<rparr>]
           \<and> True \<notin> set (dbFaults w') \<and> executingOrders w' = executingOrders w"
  unfolding insertTradeHistory_def
  using run_ok[OF assms(1), of "sql_insertTradeHistory trade"] no_fault_tl[OF assms(1)] assms(2)
  by (simp add: sql_insertTradeHistory_def)

lemma recordTradeHistory_skip:
  "o_type order = MARKET_BUY \<or> \<not> truthy_str (signature result) \<Longrightarrow>
   recordTradeHistory order position result w = (Returns (), w)"
  by (simp add: recordTradeHistory_def ret_def)

lemma recordTradeHistory_ok:
  assumes "True \<notin> set (dbFaults w)" and "p_symbol position \<noteq> None"
    and "o_type order \<noteq> MARKET_BUY" and "truthy_str (signature result)"
  shows "\<exists>w' row. recordTradeHistory order position result w = (Returns (), w')
           \<and> trade_history (db w') = trade_history (db w) @ [row]
           \<and> t_orderId row = o_id order \<and> t_type row = o_type order
           \<and> Some (t_signature row) = signature result
           \<and> True \<notin> set (dbFaults w') \<and> executingOrders w' = executingOrders w"
proof -
  from assms(4) obtain sg where sg: "signature result = Some sg"
    by (auto simp: truthy_str_def)
  have "t_symbol (tradeRecord order position sg (now w)) \<noteq> None"
    using assms(2) by (simp add: tradeRecord_def)
  from insertTradeHistory_ok[OF assms(1) this] obtain n w'
    where "insertTradeHistory (tradeRecord order position sg (now w)) w = (Returns n, w')"
      and "trade_history (db w') = trade_history (db w) @
             [(tradeRecord order position sg (now w))\<lparr>t_reason :=
                or_null_str (t_reason (tradeRecord order position sg (now w)))\<rparr>]"
      and "True \<notin> set (dbFaults w')" and "executingOrders w' = executingOrders w"
    by blast
  then show ?thesis using assms(3,4) sg
    by (simp add: recordTradeHistory_def bnd_def ret_def Date_now_def tradeRecord_def)
qed

lemma venue_frame:
  "\<exists>result w1. (if o_type order = MARKET_BUY then executeBuyOrder cfg order position
                  else executeSellOrder cfg order position) w = (Returns result, w1)
      \<and> db w1 = db w \<and> dbFaults w1 = dbFaults w \<and> executingOrders w1 = executingOrders w"
  by (auto simp: executeBuyOrder_def executeSellOrder_def executeBuy_def executeSell_def
        try_catch_def bnd_def ret_def getTokenBalance_def executeJupiterSwap_def BigInt_def
      split: list.splits balance_answer.splits option.splits jsnum.splits)

lemma executeOrder_try_ok:
  assumes nf: "True \<notin> set (dbFaults w)" and sym: "p_symbol position \<noteq> None"
  shows "\<exists>result order' w'. executeOrder_try cfg order position w = (Returns result, order', w')
           \<and> executingOrders w' = executingOrders w
           \<and> (if success result \<and> truthy_str (signature result) \<and> o_type order \<noteq> MARKET_BUY
               then \<exists>row. trade_history (db w') = trade_history (db w) @ [row]
                      \<and> t_orderId row = o_id order \<and> t_type row = o_type order
                      \<and> Some (t_signature row) = signature result
               else trade_history (db w') = trade_history (db w))"
proof -
  from venue_frame[of order cfg position w] obtain result w1
    where v: "(if o_type order = MARKET_BUY then executeBuyOrder cfg order position
               else executeSellOrder cfg order position) w = (Returns result, w1)"
      and f: "db w1 = db w" "dbFaults w1 = dbFaults w" "executingOrders w1 = executingOrders w"
    by blast
  have nf1: "True \<notin> set (dbFaults w1)" using nf f by simp
  show ?thesis
  proof (cases "success result")
    case False
    define order1 where "order1 = order\<lparr>o_status := FAILED, o_error := error result,
                                        o_retryCount := Suc (o_retryCount order)\<rparr>"
    from updateOrder_ok[OF nf1, of order1] obtain n w2
      where u: "updateOrder order1 w1 = (Returns n, w2)"
        and "trade_history (db w2) = trade_history (db w1)"
        and "executingOrders w2 = executingOrders w1"
      by blast
    then show ?thesis using v f False
      by (simp add: executeOrder_try_def order1_def)
  next
    case True
    define order1 where "order1 = order\<lparr>o_status := COMPLETED, o_executedAt := Some (now w1),
                                        o_signature := signature result\<rparr>"
    show ?thesis
    proof (cases "truthy_str (signature result) \<and> o_type order \<noteq> MARKET_BUY")
      case t: True
      then have ty: "o_type order1 \<noteq> MARKET_BUY" and sg: "truthy_str (signature result)"
        by (simp_all add: order1_def)
      from recordTradeHistory_ok[OF nf1 sym ty sg] obtain w2 row
        where r: "recordTradeHistory order1 position result w1 = (Returns (), w2)"
          and h: "trade_history (db w2) = trade_history (db w1) @ [row]"
             "t_orderId row = o_id order1" "t_type row = o_type order1"
             "Some (t_signature row) = signature result"
          and nf2: "True \<notin> set (dbFaults w2)" and e2: "executingOrders w2 = executingOrders w1"
        by blast
      from updateOrder_ok[OF nf2, of order1] obtain n w3
        where u: "updateOrder order1 w2 = (Returns n, w3)"
          and h3: "trade_history (db w3) = trade_history (db w2)"
          and e3: "executingOrders w3 = executingOrders w2"
        by blast
      have "executeOrder_try cfg order position w = (Returns result, order1, w3)"
        using v True r u by (simp add: executeOrder_try_def order1_def Let_def)
      moreover have "trade_history (db w3) = trade_history (db w) @ [row]"
        using h3 h(1) f by simp
      moreover have "t_orderId row = o_id order" "t_type row = o_type order"
        using h(2,3) by (simp_all add: order1_def)
      ultimately show ?thesis using True t h(4) e3 e2 f by auto
    next
      case nt: False
      then have "o_type order1 = MARKET_BUY \<or> \<not> truthy_str (signature result)"
        by (auto simp: order1_def)
      from recordTradeHistory_skip[OF this]
      have r: "recordTradeHistory order1 position result w1 = (Returns (), w1)" .
      from updateOrder_ok[OF nf1, of order1] obtain n w3
        where u: "updateOrder order1 w1 = (Returns n, w3)"
          and h3: "trade_history (db w3) = trade_history (db w1)"
          and e3: "executingOrders w3 = executingOrders w1"
        by blast
      have "executeOrder_try cfg order position w = (Returns result, order1, w3)"
        using v True r u by (simp add: executeOrder_try_def order1_def Let_def)
      then show ?thesis using nt h3 e3 f by auto
    qed
  qed
qed

text \<open>
  C8: \<open>recordTradeHistory\<close> writes nothing for a buy order or for a result without a
  signature.  When no statement of the storage layer raises and the position has a
  symbol (as every row of the positions table has), \<open>executeOrder\<close> returns, and the
  trade history is then the old one extended by exactly one row (of this order, with
  the signature of the result) if the result is a success with a signature and the
  order is not a buy order, and is the old one unchanged otherwise.
\<close>

theorem C8_trade_history:
  "((o_type order = MARKET_BUY \<or> \<not> truthy_str (signature result0)) \<longrightarrow>
      recordTradeHistory order position result0 w = (Returns (), w))
   \<and> (True \<notin> set (dbFaults w) \<and> p_symbol position \<noteq> None \<longrightarrow>
        (\<exists>result order' w'. executeOrder cfg order position w = (Returns (result, order'), w')
           \<and> (if success result \<and> truthy_str (signature result) \<and> o_type order \<noteq> MARKET_BUY
               then \<exists>row. trade_history (db w') = trade_history (db w) @ [row]
                      \<and> t_orderId row = o_id order \<and> t_type row = o_type order
                      \<and> Some (t_signature row) = signature result
               else trade_history (db w') = trade_history (db w))))"
proof (intro conjI impI)
  assume "o_type order = MARKET_BUY \<or> \<not> truthy_str (signature result0)"
  then show "recordTradeHistory order position result0 w = (Returns (), w)"
    by (rule recordTradeHistory_skip)
next
  assume a: "True \<notin> set (dbFaults w) \<and> p_symbol position \<noteq> None"
  show "\<exists>result order' w'. executeOrder cfg order position w = (Returns (result, order'), w')
           \<and> (if success result \<and> truthy_str (signature result) \<and> o_type order \<noteq> MARKET_BUY
               then \<exists>row. trade_history (db w') = trade_history (db w) @ [row]
                      \<and> t_orderId row = o_id order \<and> t_type row = o_type order
                      \<and> Some (t_signature row) = signature result
               else trade_history (db w') = trade_history (db w))"
  proof (cases "o_id order \<in> executingOrders w")
    case True
    then show ?thesis by (simp add: executeOrder_def failed_result_def)
  next
    case False
    define w1 where "w1 = w\<lparr>executingOrders := insert (o_id order) (executingOrders w)\<rparr>"
    define order1 where "order1 = order\<lparr>o_status := EXECUTING\<rparr>"
    have nf1: "True \<notin> set (dbFaults w1)" using a by (simp add: w1_def)
    from updateOrder_ok[OF nf1, of order1] obtain n w2
      where u: "updateOrder order1 w1 = (Returns n, w2)"
        and h2: "trade_history (db w2) = trade_history (db w1)"
        and nf2: "True \<notin> set (dbFaults w2)"
      by blast
    from executeOrder_try_ok[OF nf2, of position cfg order1] a obtain result order' w3
      where t: "executeOrder_try cfg order1 position w2 = (Returns result, order', w3)"
        and h3: "if success result \<and> truthy_str (signature result) \<and> o_type order1 \<noteq> MARKET_BUY
               then \<exists>row. trade_history (db w3) = trade_history (db w2) @ [row]
                      \<and> t_orderId row = o_id order1 \<and> t_type row = o_type order1
                      \<and> Some (t_signature row) = signature result
               else trade_history (db w3) = trade_history (db w2)"
      by blast
    have "executeOrder cfg order position w =
            (Returns (result, order'), w3\<lparr>executingOrders := executingOrders w3 - {o_id order}\<rparr>)"
      using False u t by (simp add: executeOrder_def w1_def order1_def Let_def)
    moreover have "trade_history (db w2) = trade_history (db w)" using h2 by (simp add: w1_def)
    ultimately show ?thesis using h3 by (auto simp: order1_def)
  qed
qed

section \<open>Sample runs\<close>

lemmas eval_defs =
  bnd_def ret_def try_catch_def run_def Let_def
  or_null_nat_def or_null_str_def
  sql_insertPosition_def set_price_columns_def sql_updatePosition_def sql_deletePosition_def
  sql_insertOrder_def set_order_columns_def sql_updateOrder_def sql_cancel_def
  sql_insertTradeHistory_def
  insertPosition_def db_updatePosition_def deletePosition_def insertOrder_def updateOrder_def
  cancelOrder_def cancelPositionOrders_def insertTradeHistory_def
  getPosition_def getActivePositions_def getPositionCount_def getOrder_def
  getPositionOrders_def getPendingOrders_def
  getTokenBalance_def executeJupiterSwap_def truthy_str_def ok_result_def failed_result_def
  executeBuy_def BigInt_def bigint_div_def executeSell_def
  Date_now_def generateOrderId_def createOrder_def checkCondition_def calculateGain_def
  shouldTriggerOrder_def executeBuyOrder_def executeSellOrder_def tradeRecord_def
  recordTradeHistory_def executeOrder_try_def executeOrder_catch_def executeOrder_def
  checkAndExecuteOrders_def createAndExecuteImmediateOrder_def
  createDefaultOrders_def newPosition_def createPosition_try_def createPosition_def
  closePosition_def updatePosition_def closePositionManually_def
  js_sub_def js_ge_def js_gt_def js_lt_def js_eq_def js_max_def js_min_def js_truthy_def js_inf_def
  dbl_defs

lemmas sample_defs =
  sample_config_def sample_position_def sample_order_def sample_world_def sample_token_def
  sample_world2_def sample_updated_def empty_world_def good_token_def

lemma sample_update:
  "updatePosition sample_config ''X'' (Fin 60000) (Fin 0) sample_world =
     (Returns (Some sample_updated),
      sample_world\<lparr>db := (db sample_world)\<lparr>positions := [sample_updated]\<rparr>\<rparr>)"
  by (simp add: eval_defs sample_defs)

theorem C9_updatePosition_frame_witness:
  "fst (updatePosition sample_config ''X'' (Fin 60000) (Fin 0) sample_world) = Returns (Some sample_updated)
   \<and> (\<exists>p. getPosition (db sample_world) ''X'' = Some p \<and> entry_fields sample_updated = entry_fields p
           \<and> p_entryPrice sample_updated = p_entryPrice p \<and> p_solInvested sample_updated = p_solInvested p
           \<and> p_entryTime sample_updated = p_entryTime p \<and> p_symbol sample_updated = p_symbol p
           \<and> p_address sample_updated = p_address p)"
  using C9_updatePosition_frame [of sample_config "''X''" "Fin 60000" "Fin 0" sample_world sample_updated]
  by (simp add: sample_update)

theorem C4_createPosition_guards_witness:
  "MAX_POSITIONS (sample_config\<lparr>MAX_POSITIONS := 1\<rparr>) \<le> int (getPositionCount (db sample_world))
   \<and> createPosition (sample_config\<lparr>MAX_POSITIONS := 1\<rparr>) good_token (Fin (1 / 100)) sample_world
       = (Returns None, sample_world)
   \<and> getPosition (db sample_world) (tk_a good_token) \<noteq> None
   \<and> createPosition sample_config good_token (Fin (1 / 100)) sample_world = (Returns None, sample_world)
   \<and> positions (db empty_world) = [] \<and> 0 \<le> MAX_POSITIONS sample_config
   \<and> length (filter (\<lambda>row. p_address row = ''X'' \<and> p_status row = ACTIVE)
        (positions (db (performAll sample_config
           [CreatePosition good_token (Fin (1 / 100)), ProcessToken good_token] empty_world)))) \<le> 1
   \<and> int (getPositionCount (db (performAll sample_config
           [CreatePosition good_token (Fin (1 / 100)), ProcessToken good_token] empty_world))) \<le> 30"
  using C4_createPosition_guards [where w = sample_world and cfg = "sample_config\<lparr>MAX_POSITIONS := 1\<rparr>"
          and token = good_token and solInvested = "Fin (1 / 100)" and ?w0.0 = empty_world
          and calls = "[]" and address = "''X''"]
        C4_createPosition_guards [where w = sample_world and cfg = sample_config
          and token = good_token and solInvested = "Fin (1 / 100)" and ?w0.0 = empty_world
          and calls = "[CreatePosition good_token (Fin (1 / 100)), ProcessToken good_token]"
          and address = "''X''"]
  by (simp add: sample_defs getPositionCount_def getPosition_def)




lemmas sold_defs = sample_triggered_def sample_world3_def sample_marked_def sample_executed_def
  sample_sold_def

lemma sample_mark:
  "updateOrder ((sample_order\<lparr>o_sellRatio := ratio\<rparr>)\<lparr>o_status := TRIGGERED,
       o_triggeredAt := Some (now (sample_world3 ratio))\<rparr>) (sample_world3 ratio) =
     (Returns 1, sample_marked ratio)"
  by (simp add: eval_defs sample_defs sold_defs)

lemma sample_sell_50:
  "executeOrder sample_config ((sample_order\<lparr>o_sellRatio := Fin 50\<rparr>)\<lparr>o_status := TRIGGERED,
       o_triggeredAt := Some (now (sample_world3 (Fin 50)))\<rparr>) sample_position (sample_marked (Fin 50)) =
     (Returns (ok_result (Some ''sig''), sample_executed (Fin 50)), sample_sold (Fin 50))"
  by (simp add: eval_defs sample_defs sold_defs)

lemma sample_sell_100:
  "executeOrder sample_config ((sample_order\<lparr>o_sellRatio := Fin 100\<rparr>)\<lparr>o_status := TRIGGERED,
       o_triggeredAt := Some (now (sample_world3 (Fin 100)))\<rparr>) sample_position (sample_marked (Fin 100)) =
     (Returns (ok_result (Some ''sig''), sample_executed (Fin 100)), sample_sold (Fin 100))"
  by (simp add: eval_defs sample_defs sold_defs)


lemmas two_defs = sample_order_b_def two_world_def two_marked_def two_sold_def sample_stop_def
  sample_full_def halt_world_def halt_marked_def full_executed_def halt_sold_def

lemma two_pending:
  "filter (\<lambda>order. o_status order = PENDING) (getPositionOrders (db two_world) (p_id sample_position))
     = [] @ sample_order # [sample_order_b]"
  by (simp add: getPositionOrders_def sample_defs two_defs)

lemma two_mark:
  "updateOrder (sample_order\<lparr>o_status := TRIGGERED, o_triggeredAt := Some (now two_world)\<rparr>) two_world
     = (Returns 1, two_marked)"
  by (simp add: eval_defs sample_defs sold_defs two_defs)

lemma two_sell:
  "executeOrder sample_config (sample_order\<lparr>o_status := TRIGGERED, o_triggeredAt := Some (now two_world)\<rparr>)
      sample_position two_marked
     = (Returns (ok_result (Some ''sig''), sample_executed (Fin 50)), two_sold)"
  by (simp add: eval_defs sample_defs sold_defs two_defs)

lemma two_rest:
  "fst (checkLoop sample_config sample_position [sample_order_b] two_sold) = Returns False"
  "map o_status (orders (db (snd (checkLoop sample_config sample_position [sample_order_b] two_sold))))
     = [COMPLETED, COMPLETED]"
  "map t_orderId (trade_history (db (snd (checkLoop sample_config sample_position [sample_order_b]
                                            two_sold))))
     = [o_id sample_order, o_id sample_order_b]"
  by (simp_all add: eval_defs sample_defs sold_defs two_defs)

lemma halt_pending:
  "filter (\<lambda>order. o_status order = PENDING) (getPositionOrders (db halt_world) (p_id sample_position))
     = [sample_stop] @ sample_full # [sample_order]"
  by (simp add: getPositionOrders_def sample_defs two_defs)

lemma halt_mark:
  "updateOrder (sample_full\<lparr>o_status := TRIGGERED, o_triggeredAt := Some (now halt_world)\<rparr>) halt_world
     = (Returns 1, halt_marked)"
  by (simp add: eval_defs sample_defs sold_defs two_defs)

lemma halt_sell:
  "executeOrder sample_config (sample_full\<lparr>o_status := TRIGGERED, o_triggeredAt := Some (now halt_world)\<rparr>)
      sample_position halt_marked
     = (Returns (ok_result (Some ''sig''), full_executed), halt_sold)"
  by (simp add: eval_defs sample_defs sold_defs two_defs)

theorem C6_evaluate_and_execute_witness:
  "\<not> shouldTriggerOrder sample_order sample_updated
   \<and> checkLoop sample_config sample_updated [sample_order] sample_world2 = (Returns False, sample_world2)
   \<and> checkAndExecuteOrders sample_config sample_updated sample_world2 = (Returns False, sample_world2)
   \<and> shouldTriggerOrder (sample_order\<lparr>o_sellRatio := Fin 50\<rparr>) sample_position
   \<and> js_lt (Fin 50) (Fin 100)
   \<and> checkLoop sample_config sample_position [sample_order\<lparr>o_sellRatio := Fin 50\<rparr>]
         (sample_world3 (Fin 50)) = (Returns False, sample_sold (Fin 50))
   \<and> js_ge (Fin 100) (Fin 100)
   \<and> checkLoop sample_config sample_position [sample_order\<lparr>o_sellRatio := Fin 100\<rparr>]
         (sample_world3 (Fin 100)) = (Returns True, sample_sold (Fin 100))
   \<and> fst (checkAndExecuteOrders sample_config sample_updated sample_world2) \<noteq> Returns True
   \<and> sample_order \<in> set (orders (db (snd (checkLoop sample_config sample_updated [sample_order]
                                            sample_world2))))
   \<and> filter (\<lambda>order. o_status order = PENDING)
         (getPositionOrders (db two_world) (p_id sample_position)) = [sample_order, sample_order_b]
   \<and> shouldTriggerOrder sample_order sample_position
   \<and> shouldTriggerOrder sample_order_b sample_position
   \<and> o_sellRatio sample_order = Fin 50 \<and> o_sellRatio sample_order_b = Fin 25
   \<and> checkAndExecuteOrders sample_config sample_position two_world
        = checkLoop sample_config sample_position [sample_order_b] two_sold
   \<and> fst (checkAndExecuteOrders sample_config sample_position two_world) = Returns False
   \<and> map o_status (orders (db (snd (checkAndExecuteOrders sample_config sample_position two_world))))
        = [COMPLETED, COMPLETED]
   \<and> map t_orderId (trade_history (db (snd (checkAndExecuteOrders sample_config sample_position
                                                two_world))))
        = [o_id sample_order, o_id sample_order_b]
   \<and> filter (\<lambda>order. o_status order = PENDING)
         (getPositionOrders (db halt_world) (p_id sample_position))
        = [sample_stop, sample_full, sample_order]
   \<and> \<not> shouldTriggerOrder sample_stop sample_position
   \<and> shouldTriggerOrder sample_full sample_position
   \<and> o_sellRatio sample_full = Fin 100
   \<and> checkAndExecuteOrders sample_config sample_position halt_world = (Returns True, halt_sold)
   \<and> map o_status (orders (db halt_sold)) = [PENDING, COMPLETED, PENDING]
   \<and> map t_orderId (trade_history (db halt_sold)) = [o_id sample_full]
   \<and> sample_stop \<in> set (orders (db (snd (checkAndExecuteOrders sample_config sample_position
                                             halt_world))))"
proof -
  have nt: "\<not> shouldTriggerOrder sample_order sample_updated"
    by (simp add: eval_defs sample_defs)
  have tr: "shouldTriggerOrder (sample_order\<lparr>o_sellRatio := ratio\<rparr>) sample_position" for ratio
    by (simp add: eval_defs sample_defs)
  have trs: "shouldTriggerOrder sample_order sample_position"
    "shouldTriggerOrder sample_order_b sample_position"
    "\<not> shouldTriggerOrder sample_stop sample_position"
    "shouldTriggerOrder sample_full sample_position"
    by (simp_all add: eval_defs sample_defs two_defs)
  have ra: "o_sellRatio sample_order = Fin 50" "o_sellRatio sample_order_b = Fin 25"
    "o_sellRatio sample_full = Fin 100"
    by (simp_all add: sample_defs two_defs)
  have lt: "js_lt (Fin 50) (Fin 100)" and ge: "js_ge (Fin 100) (Fin 100)"
    by (simp_all add: js_lt_def js_ge_def)
  have ok: "success (ok_result (Some ''sig''))" by (simp add: ok_result_def)
  have pend: "\<forall>od \<in> set (getPositionOrders (db sample_world2) (p_id sample_updated)).
          o_status od = PENDING \<longrightarrow> js_lt (o_sellRatio od) (Fin 100)"
    by (simp add: eval_defs sample_defs)
  have none: "\<forall>od \<in> set (filter (\<lambda>order. o_status order = PENDING)
                       (getPositionOrders (db sample_world2) (p_id sample_updated))).
          \<not> shouldTriggerOrder od sample_updated"
    using nt by (simp add: getPositionOrders_def sample_defs)
  have row: "sample_order \<in> set (orders (db sample_world2))
        \<and> (\<forall>od \<in> set [sample_order]. shouldTriggerOrder od sample_updated \<longrightarrow> o_id od \<noteq> o_id sample_order)"
    using nt by (simp add: sample_defs)
  have first: "checkLoop sample_config sample_updated [sample_order] sample_world2
                 = (Returns False, sample_world2)
      \<and> checkAndExecuteOrders sample_config sample_updated sample_world2 = (Returns False, sample_world2)
      \<and> fst (checkAndExecuteOrders sample_config sample_updated sample_world2) \<noteq> Returns True
      \<and> sample_order \<in> set (orders (db (snd (checkLoop sample_config sample_updated [sample_order]
                                            sample_world2))))"
    using C6_evaluate_and_execute [where order = sample_order and position = sample_updated
            and cfg = sample_config and rest = "[]" and w = sample_world2
            and pending = "[sample_order]" and row = sample_order]
          nt pend none row
    by simp
  have half: "checkLoop sample_config sample_position [sample_order\<lparr>o_sellRatio := Fin 50\<rparr>]
         (sample_world3 (Fin 50)) = (Returns False, sample_sold (Fin 50))"
    using C6_evaluate_and_execute [where order = "sample_order\<lparr>o_sellRatio := Fin 50\<rparr>"
            and position = sample_position and cfg = sample_config and rest = "[]"
            and w = "sample_world3 (Fin 50)" and n = 1 and ?w1.0 = "sample_marked (Fin 50)"
            and result = "ok_result (Some ''sig'')" and ?order2.0 = "sample_executed (Fin 50)"
            and ?w2.0 = "sample_sold (Fin 50)"]
          tr lt ok sample_mark sample_sell_50
    by simp
  have full: "checkLoop sample_config sample_position [sample_order\<lparr>o_sellRatio := Fin 100\<rparr>]
         (sample_world3 (Fin 100)) = (Returns True, sample_sold (Fin 100))"
    using C6_evaluate_and_execute [where order = "sample_order\<lparr>o_sellRatio := Fin 100\<rparr>"
            and position = sample_position and cfg = sample_config and rest = "[]"
            and w = "sample_world3 (Fin 100)" and n = 1 and ?w1.0 = "sample_marked (Fin 100)"
            and result = "ok_result (Some ''sig'')" and ?order2.0 = "sample_executed (Fin 100)"
            and ?w2.0 = "sample_sold (Fin 100)"]
          tr ge ok sample_mark sample_sell_100
    by simp
  have two: "checkAndExecuteOrders sample_config sample_position two_world
        = checkLoop sample_config sample_position [sample_order_b] two_sold"
    using C6_evaluate_and_execute [where order = sample_order and position = sample_position
            and cfg = sample_config and pre = "[]" and rest = "[sample_order_b]"
            and w = two_world and n = 1 and ?w1.0 = two_marked
            and result = "ok_result (Some ''sig'')" and ?order2.0 = "sample_executed (Fin 50)"
            and ?w2.0 = two_sold]
          two_pending trs ra lt ok two_mark two_sell
    by simp
  have dist: "distinct (map o_id (orders (db halt_world)))"
    by (simp add: sample_defs two_defs)
  have stop_pending: "sample_stop \<in> set (filter (\<lambda>order. o_status order = PENDING)
                         (getPositionOrders (db halt_world) (p_id sample_position)))"
    using halt_pending by simp
  have halt: "checkAndExecuteOrders sample_config sample_position halt_world = (Returns True, halt_sold)"
    using C6_evaluate_and_execute [where order = sample_full and position = sample_position
            and cfg = sample_config and pre = "[sample_stop]" and rest = "[sample_order]"
            and w = halt_world and n = 1 and ?w1.0 = halt_marked
            and result = "ok_result (Some ''sig'')" and ?order2.0 = full_executed
            and ?w2.0 = halt_sold]
          halt_pending trs ra ge ok halt_mark halt_sell
    by simp
  have kept: "sample_stop \<in> set (orders (db (snd (checkAndExecuteOrders sample_config sample_position
                                             halt_world))))"
    using C6_evaluate_and_execute [where position = sample_position and cfg = sample_config
            and w = halt_world and row = sample_stop]
          dist stop_pending trs
    by simp
  have after: "map o_status (orders (db halt_sold)) = [PENDING, COMPLETED, PENDING]"
    "map t_orderId (trade_history (db halt_sold)) = [o_id sample_full]"
    by (simp_all add: sample_defs two_defs tradeRecord_def)
  show ?thesis
    using nt tr lt ge first half full two two_rest two_pending halt_pending trs ra halt kept after
    by simp
qed

theorem C8_trade_history_witness:
  "o_type sample_buy_order = MARKET_BUY
   \<and> recordTradeHistory sample_buy_order sample_position (ok_result (Some ''sig'')) sample_world2
       = (Returns (), sample_world2)
   \<and> True \<notin> set (dbFaults (sample_marked (Fin 50))) \<and> p_symbol sample_position \<noteq> None
   \<and> executeOrder sample_config (sample_triggered (Fin 50)) sample_position (sample_marked (Fin 50))
       = (Returns (ok_result (Some ''sig''), sample_executed (Fin 50)), sample_sold (Fin 50))
   \<and> (\<exists>row. trade_history (db (sample_sold (Fin 50)))
               = trade_history (db (sample_marked (Fin 50))) @ [row]
             \<and> t_orderId row = o_id (sample_triggered (Fin 50))
             \<and> t_type row = o_type (sample_triggered (Fin 50))
             \<and> Some (t_signature row) = signature (ok_result (Some ''sig'')))
   \<and> True \<notin> set (dbFaults sample_world)
   \<and> fst (executeOrder sample_config sample_order sample_position sample_world)
       = Returns (\<lparr>success = True, signature = None, error = Some NO_BALANCE\<rparr>,
                  sample_order\<lparr>o_status := COMPLETED, o_executedAt := Some 5\<rparr>)
   \<and> trade_history (db (snd (executeOrder sample_config sample_order sample_position sample_world)))
       = trade_history (db sample_world)
   \<and> fst (executeOrder (sample_config\<lparr>TRADE_ENABLED := False\<rparr>) sample_order sample_position
              sample_world2)
       = Returns (ok_result None, sample_order\<lparr>o_status := COMPLETED, o_executedAt := Some 5\<rparr>)
   \<and> trade_history (db (snd (executeOrder (sample_config\<lparr>TRADE_ENABLED := False\<rparr>) sample_order
                                 sample_position sample_world2)))
       = trade_history (db sample_world2)"
proof -
  have sim: "fst (executeOrder (sample_config\<lparr>TRADE_ENABLED := False\<rparr>) sample_order sample_position
                   sample_world2)
       = Returns (ok_result None, sample_order\<lparr>o_status := COMPLETED, o_executedAt := Some 5\<rparr>)"
    "trade_history (db (snd (executeOrder (sample_config\<lparr>TRADE_ENABLED := False\<rparr>) sample_order
                                 sample_position sample_world2)))
       = trade_history (db sample_world2)"
    by (simp_all add: eval_defs sample_defs)
  have sell: "executeOrder sample_config (sample_triggered (Fin 50)) sample_position
                (sample_marked (Fin 50))
       = (Returns (ok_result (Some ''sig''), sample_executed (Fin 50)), sample_sold (Fin 50))"
    using sample_sell_50 by (simp add: sample_triggered_def sample_world3_def sample_defs)
  have zero: "executeOrder sample_config sample_order sample_position sample_world
       = (Returns (\<lparr>success = True, signature = None, error = Some NO_BALANCE\<rparr>,
                   sample_order\<lparr>o_status := COMPLETED, o_executedAt := Some 5\<rparr>),
          sample_world\<lparr>db := (db sample_world)\<lparr>orders :=
               [sample_order\<lparr>o_status := COMPLETED, o_executedAt := Some 5\<rparr>]\<rparr>,
             balances := []\<rparr>)"
    by (simp add: eval_defs sample_defs)
  have hyp: "True \<notin> set (dbFaults (sample_marked (Fin 50)))" "p_symbol sample_position \<noteq> None"
    "True \<notin> set (dbFaults sample_world)" "o_type sample_buy_order = MARKET_BUY"
    by (simp_all add: sample_defs sold_defs sample_buy_order_def)
  have ok: "success (ok_result (Some ''sig''))" "truthy_str (signature (ok_result (Some ''sig'')))"
    "o_type (sample_triggered (Fin 50)) \<noteq> MARKET_BUY"
    by (simp_all add: ok_result_def truthy_str_def sample_triggered_def sample_defs)
  show ?thesis
    using C8_trade_history [where order = sample_buy_order and position = sample_position
            and ?result0.0 = "ok_result (Some ''sig'')" and w = sample_world2 and cfg = sample_config]
          C8_trade_history [where order = "sample_triggered (Fin 50)" and position = sample_position
            and ?result0.0 = "ok_result None" and w = "sample_marked (Fin 50)" and cfg = sample_config]
          C8_trade_history [where order = sample_order and position = sample_position
            and ?result0.0 = "ok_result None" and w = sample_world and cfg = sample_config]
          hyp ok sell zero sim
    by (simp add: truthy_str_def)
qed


section \<open>The zero-balance result\<close>

text \<open>
  C1: a pending take-profit order with sell ratio 50 triggers while the wallet holds
  none of the token.  \<open>executeSellOrder\<close> gives the zero-balance result, a success
  carrying the zero-balance message; the order is marked completed, the pass over the
  pending orders returns no close signal, and \<open>updatePosition\<close> returns the position,
  whose row stays in the table.  The same run with sell ratio 100 closes the position.
\<close>

theorem C1_zero_balance_stays_open:
  "o_type sample_order = TAKE_PROFIT \<and> o_sellRatio sample_order = Fin 50
   \<and> o_status sample_order = PENDING
   \<and> shouldTriggerOrder sample_order sample_kept
   \<and> fst (executeSellOrder sample_config sample_order sample_kept sample_world)
        = Returns \<lparr>success = True, signature = None, error = Some NO_BALANCE\<rparr>
   \<and> fst (checkAndExecuteOrders sample_config sample_kept sample_world) = Returns False
   \<and> fst (updatePosition sample_config ''X'' (Fin 100000) (Fin 0) sample_world)
        = Returns (Some sample_kept)
   \<and> getPosition (db (snd (updatePosition sample_config ''X'' (Fin 100000) (Fin 0) sample_world))) ''X''
        = Some sample_kept
   \<and> map o_status (orders (db (snd (updatePosition sample_config ''X'' (Fin 100000) (Fin 0) sample_world))))
        = [COMPLETED]
   \<and> fst (updatePosition sample_config ''X'' (Fin 100000) (Fin 0) sample_world_full) = Returns None
   \<and> getPosition (db (snd (updatePosition sample_config ''X'' (Fin 100000) (Fin 0) sample_world_full))) ''X''
        = None"
  by (simp add: eval_defs sample_defs sample_kept_def sample_world_full_def)


section \<open>A failure after the position row is written\<close>

text \<open>
  C2: \<open>createPosition\<close> on an empty store, where the insert of the first default order
  raises after the position row was written: the call returns \<open>null\<close> and the row of the
  position is still in the table.  When instead the opening buy fails, the call returns
  \<open>null\<close> and the row is gone.
\<close>

theorem C2_createPosition_row_remains:
  "getPositionCount (db fault_world) = 0
   \<and> getPosition (db fault_world) (tk_a good_token) = None
   \<and> fst (createPosition sample_config good_token (Fin (1 / 100)) fault_world) = Returns None
   \<and> getPosition (db (snd (createPosition sample_config good_token (Fin (1 / 100)) fault_world)))
        (tk_a good_token) = Some (newPosition good_token (Fin (1 / 100)) 7)
   \<and> fst (createPosition sample_config good_token (Fin (1 / 100)) no_swap_world) = Returns None
   \<and> getPosition (db (snd (createPosition sample_config good_token (Fin (1 / 100)) no_swap_world)))
        (tk_a good_token) = None"
  by (simp add: eval_defs sample_defs fault_world_def no_swap_world_def)

end
